theory Spec2Isabelle
  imports Complex_Main "HOL-Library.Word"
begin

section \<open>JavaScript values used by the Bolt payment strategy\<close>

text \<open>
  A JavaScript string is a sequence of UTF-16 code units, so it is modelled as a list of
  16-bit words. \<open>js\<close> embeds an ASCII literal, one code unit per character.
\<close>

type_synonym jsstring = "16 word list"

definition js :: "string \<Rightarrow> jsstring" where
  "js s = map of_char s"

text \<open>
  \<open>String.prototype.split\<close> with a one-character separator and no limit: the string is cut
  at every occurrence of the separator, and the empty string gives one empty piece.
\<close>

fun js_split :: "jsstring \<Rightarrow> 16 word \<Rightarrow> jsstring list" where
  "js_split [] sep = [[]]"
| "js_split (c # cs) sep =
     (if c = sep then [] # js_split cs sep
      else (case js_split cs sep of
              [] \<Rightarrow> [[c]]
            | piece # pieces \<Rightarrow> (c # piece) # pieces))"

text \<open>Reading an array element: an index past the end gives \<open>undefined\<close>, here \<open>None\<close>.\<close>

definition at_index :: "'a list \<Rightarrow> nat \<Rightarrow> 'a option" where
  "at_index xs i = (if i < length xs then Some (xs ! i) else None)"

text \<open>
  A JavaScript Number, as far as the strategy needs it. \<open>Finite q\<close> carries the exact
  mathematical value \<open>q\<close> of a numeric string. The runtime rounds that value to a double:
  the rounding is not modelled, so this type does not tell \<open>-0\<close> from \<open>0\<close>, and a string
  whose value lies beyond the range of a double is \<open>Finite\<close> here where the runtime has an
  infinity. The rounding is the identity on every integer of magnitude below \<open>2 ^ 53\<close>, and
  whether a conversion gives \<open>NaN\<close> does not depend on it: \<open>NaN\<close> is the result exactly
  for the strings that are no numeric string, and rounding never produces it.
\<close>

datatype jsnumber = NaN | PosInfinity | NegInfinity | Finite rat

definition isNaN :: "jsnumber \<Rightarrow> bool" where
  "isNaN n = (case n of NaN \<Rightarrow> True | _ \<Rightarrow> False)"

subsection \<open>The unary plus on strings (ECMAScript StringToNumber)\<close>

definition is_str_white_space :: "16 word \<Rightarrow> bool" where
  "is_str_white_space c =
     (c = 0x0009 \<or> c = 0x000A \<or> c = 0x000B \<or> c = 0x000C \<or> c = 0x000D \<or> c = 0x0020
      \<or> c = 0x00A0 \<or> c = 0x1680 \<or> (0x2000 \<le> c \<and> c \<le> 0x200A) \<or> c = 0x2028
      \<or> c = 0x2029 \<or> c = 0x202F \<or> c = 0x205F \<or> c = 0x3000 \<or> c = 0xFEFF)"

definition trim :: "jsstring \<Rightarrow> jsstring" where
  "trim s = rev (dropWhile is_str_white_space (rev (dropWhile is_str_white_space s)))"

definition is_decimal_digit :: "16 word \<Rightarrow> bool" where
  "is_decimal_digit c = (0x30 \<le> c \<and> c \<le> 0x39)"

definition is_binary_digit :: "16 word \<Rightarrow> bool" where
  "is_binary_digit c = (c = 0x30 \<or> c = 0x31)"

definition is_octal_digit :: "16 word \<Rightarrow> bool" where
  "is_octal_digit c = (0x30 \<le> c \<and> c \<le> 0x37)"

definition is_hex_digit :: "16 word \<Rightarrow> bool" where
  "is_hex_digit c =
     ((0x30 \<le> c \<and> c \<le> 0x39) \<or> (0x41 \<le> c \<and> c \<le> 0x46) \<or> (0x61 \<le> c \<and> c \<le> 0x66))"

definition digit_value :: "16 word \<Rightarrow> nat" where
  "digit_value c =
     (if 0x61 \<le> c then unat c - 0x61 + 10
      else if 0x41 \<le> c then unat c - 0x41 + 10
      else unat c - 0x30)"

definition digits_value :: "nat \<Rightarrow> jsstring \<Rightarrow> nat" where
  "digits_value base ds = foldl (\<lambda>acc c. base * acc + digit_value c) 0 ds"

text \<open>SignedInteger of an exponent part: an optional sign and at least one decimal digit.\<close>

definition signed_integer :: "jsstring \<Rightarrow> int option" where
  "signed_integer s =
     (case s of
        [] \<Rightarrow> None
      | c # r \<Rightarrow>
          if c = 0x2B then
            (if r = [] \<or> \<not> list_all is_decimal_digit r then None
             else Some (int (digits_value 10 r)))
          else if c = 0x2D then
            (if r = [] \<or> \<not> list_all is_decimal_digit r then None
             else Some (- int (digits_value 10 r)))
          else if list_all is_decimal_digit s then Some (int (digits_value 10 s))
          else None)"

text \<open>What follows the mantissa: nothing, or \<open>e\<close>/\<open>E\<close> and a SignedInteger.\<close>

definition exponent_part :: "jsstring \<Rightarrow> int option" where
  "exponent_part s =
     (case s of
        [] \<Rightarrow> Some 0
      | c # r \<Rightarrow> if c = 0x65 \<or> c = 0x45 then signed_integer r else None)"

definition scale10 :: "rat \<Rightarrow> int \<Rightarrow> rat" where
  "scale10 m e = (if 0 \<le> e then m * 10 ^ nat e else m / 10 ^ nat (- e))"

text \<open>
  StrUnsignedDecimalLiteral: \<open>Infinity\<close>, or digits with an optional fraction and an optional
  exponent; at least one digit has to stand before or after the point.
\<close>

definition str_unsigned_decimal_literal :: "jsstring \<Rightarrow> jsnumber" where
  "str_unsigned_decimal_literal s =
     (if s = js ''Infinity'' then PosInfinity
      else
        (let ip = takeWhile is_decimal_digit s;
             r1 = dropWhile is_decimal_digit s;
             has_point = (case r1 of [] \<Rightarrow> False | c # r \<Rightarrow> c = 0x2E);
             fp = (if has_point then takeWhile is_decimal_digit (tl r1) else []);
             r2 = (if has_point then dropWhile is_decimal_digit (tl r1) else r1)
         in if ip = [] \<and> fp = [] then NaN
            else (case exponent_part r2 of
                    None \<Rightarrow> NaN
                  | Some e \<Rightarrow>
                      Finite (scale10 (of_nat (digits_value 10 ip)
                                + of_nat (digits_value 10 fp) / 10 ^ length fp) e))))"

definition negate :: "jsnumber \<Rightarrow> jsnumber" where
  "negate n =
     (case n of
        NaN \<Rightarrow> NaN
      | PosInfinity \<Rightarrow> NegInfinity
      | NegInfinity \<Rightarrow> PosInfinity
      | Finite q \<Rightarrow> Finite (- q))"

definition str_decimal_literal :: "jsstring \<Rightarrow> jsnumber" where
  "str_decimal_literal s =
     (case s of
        [] \<Rightarrow> NaN
      | c # r \<Rightarrow>
          if c = 0x2B then str_unsigned_decimal_literal r
          else if c = 0x2D then negate (str_unsigned_decimal_literal r)
          else str_unsigned_decimal_literal s)"

text \<open>NonDecimalIntegerLiteral: \<open>0b\<close>, \<open>0o\<close> or \<open>0x\<close> (either case) and at least one digit; no sign.\<close>

definition non_decimal_integer_literal :: "jsstring \<Rightarrow> nat option" where
  "non_decimal_integer_literal s =
     (case s of
        c0 # c1 # ds \<Rightarrow>
          if c0 = 0x30 \<and> ds \<noteq> [] then
            (if (c1 = 0x62 \<or> c1 = 0x42) \<and> list_all is_binary_digit ds
               then Some (digits_value 2 ds)
             else if (c1 = 0x6F \<or> c1 = 0x4F) \<and> list_all is_octal_digit ds
               then Some (digits_value 8 ds)
             else if (c1 = 0x78 \<or> c1 = 0x58) \<and> list_all is_hex_digit ds
               then Some (digits_value 16 ds)
             else None)
          else None
      | _ \<Rightarrow> None)"

text \<open>
  StringToNumber: white space around the literal is dropped, the empty string is \<open>0\<close>, and
  a string that is no StringNumericLiteral is \<open>NaN\<close>.
\<close>

definition string_to_number :: "jsstring \<Rightarrow> jsnumber" where
  "string_to_number s =
     (let t = trim s
      in if t = [] then Finite 0
         else (case non_decimal_integer_literal t of
                 Some n \<Rightarrow> Finite (of_nat n)
               | None \<Rightarrow> str_decimal_literal t))"

text \<open>The unary plus on a value that is a string or \<open>undefined\<close>: \<open>+undefined\<close> is \<open>NaN\<close>.\<close>

definition to_number :: "jsstring option \<Rightarrow> jsnumber" where
  "to_number v = (case v of None \<Rightarrow> NaN | Some s \<Rightarrow> string_to_number s)"


section \<open>Data model of the Bolt payment strategy\<close>

subsection \<open>Errors\<close>

datatype missing_data_error_type = MissingCheckout | MissingPayment | MissingPaymentMethod

datatype not_initialized_error_type = PaymentNotInitialized

text \<open>
  Every \<open>throw\<close> and every rejected promise is an \<open>error\<close> value. \<open>InvalidArgumentError\<close>
  carries its message; \<open>PaymentArgumentInvalidError\<close> carries the list of field names it was
  constructed with, \<open>None\<close> when the constructor got no argument. \<open>TypeError\<close> is what the
  runtime raises on destructuring \<open>undefined\<close>; \<open>CollaboratorError\<close> is any other failure
  of a collaborator (script loader, store, provider SDK).
\<close>

datatype error =
    InvalidArgumentError jsstring
  | MissingDataError missing_data_error_type
  | NotInitializedError not_initialized_error_type
  | OrderFinalizationNotRequiredError
  | PaymentArgumentInvalidError "jsstring list option"
  | PaymentMethodCancelledError
  | PaymentMethodInvalidError
  | TypeError
  | CollaboratorError jsstring

subsection \<open>Inputs\<close>

record bolt_initialize_options =
  useBigCommerceCheckout :: bool
  containerId :: "jsstring option"

record payment_initialize_options =
  methodId :: "jsstring option"
  bolt :: "bolt_initialize_options option"

datatype developer_config = DeveloperConfig nat

record initialization_data =
  publishableKey :: "jsstring option"
  developerConfig :: "developer_config option"
  embeddedOneClickEnabled :: "bool option"

record payment_method_config =
  testMode :: "bool option"

record payment_method =
  initializationData :: "initialization_data option"
  config :: "payment_method_config option"
  clientToken :: "jsstring option"

datatype request_options = RequestOptions nat

text \<open>\<open>paymentData\<close> of the request: the field this strategy reads, and the rest as it came.\<close>

record payment_instrument =
  shouldSaveInstrument :: "bool option"
  otherFields :: jsstring

record order_payment_request_body =
  payment_methodId :: jsstring
  paymentData :: "payment_instrument option"

text \<open>
  The request body. \<open>const { payment, ...order } = payload\<close> is modelled by
  \<open>payload\<lparr>payment := None\<rparr>\<close>: the body without its \<open>payment\<close> field.
\<close>

record order_request_body =
  payment :: "order_payment_request_body option"
  useStoreCredit :: "bool option"

record checkout =
  isStoreCreditApplied :: "bool option"

subsection \<open>Provider values\<close>

datatype bolt_checkout = BoltCheckout nat

datatype bolt_embedded = BoltEmbedded nat

datatype bolt_embedded_field = BoltEmbeddedField nat

record bolt_transaction =
  reference :: jsstring

text \<open>The fields of a tokenize result that the strategy reads.\<close>

record bolt_embedded_tokenize =
  token :: jsstring
  last4 :: jsstring
  bin :: jsstring
  expiration :: jsstring

text \<open>What the promise of \<open>tokenize()\<close> resolves to: nothing, an \<open>Error\<close> value, or a result.\<close>

datatype tokenize_value =
    TokenizeUndefined
  | TokenizeError error
  | TokenizeResult bolt_embedded_tokenize

text \<open>
  How the hosted checkout opened by \<open>configure(...).open()\<close> ends: the \<open>success\<close> callback
  fires with a transaction, the \<open>close\<close> callback fires, or the call throws.
\<close>

datatype checkout_outcome =
    CheckoutSuccess bolt_transaction
  | CheckoutClose
  | CheckoutThrows error

subsection \<open>Payment submission payload\<close>

record credit_card_token =
  card_token :: jsstring
  last_four_digits :: jsnumber
  iin :: jsnumber
  expiration_month :: jsnumber
  expiration_year :: jsnumber

record provider_data =
  create_account :: bool
  embedded_checkout :: bool

record formatted_payload =
  credit_card_token :: credit_card_token
  provider_data :: provider_data

datatype submitted_payment_data =
    NonceData jsstring "bool option"
  | FormattedPayload formatted_payload
  | InstrumentWithNonce payment_instrument jsstring

record payment_payload =
  payload_methodId :: jsstring
  payload_paymentData :: submitted_payment_data

subsection \<open>Store, collaborators and effects\<close>

text \<open>The actions the strategy dispatches into the store, one per action creator it uses.\<close>

datatype action =
    SubmitOrder order_request_body "request_options option"
  | ApplyStoreCredit bool
  | LoadPaymentMethod jsstring "request_options option"
  | SubmitPayment payment_payload

text \<open>Every call the strategy makes to a collaborator, in the order of the calls.\<close>

datatype event =
    LoadBoltClient "jsstring option" "bool option" "developer_config option"
  | LoadBoltEmbedded jsstring "bool option" "developer_config option"
  | CreateField bolt_embedded jsstring
  | MountField bolt_embedded_field jsstring
  | Dispatch action
  | OpenCheckout bolt_checkout jsstring
  | SuccessCallback
  | Tokenize bolt_embedded_field
  | GetTransactionReference bolt_checkout

text \<open>
  The collaborators are not part of the strategy: their behaviour is a parameter. The store
  state is any type \<open>'st\<close>; \<open>dispatch\<close> gives the store state after the action and the error
  the dispatch was rejected with, if any. Every promise of a collaborator is taken to settle.
\<close>

record 'st collaborators =
  getPaymentMethod :: "'st \<Rightarrow> jsstring \<Rightarrow> payment_method option"
  getCheckoutOrThrow :: "'st \<Rightarrow> error + checkout"
  dispatch :: "action \<Rightarrow> 'st \<Rightarrow> error option \<times> 'st"
  loadBoltClient :: "jsstring option \<Rightarrow> bool option \<Rightarrow> developer_config option
                     \<Rightarrow> error + bolt_checkout"
  loadBoltEmbedded :: "jsstring \<Rightarrow> bool option \<Rightarrow> developer_config option
                       \<Rightarrow> error + bolt_embedded"
  createField :: "bolt_embedded \<Rightarrow> jsstring \<Rightarrow> error + bolt_embedded_field"
  mountField :: "bolt_embedded_field \<Rightarrow> jsstring \<Rightarrow> error option"
  openCheckout :: "bolt_checkout \<Rightarrow> jsstring \<Rightarrow> checkout_outcome"
  getTransactionReference :: "bolt_checkout \<Rightarrow> error + jsstring option"
  tokenize :: "bolt_embedded_field \<Rightarrow> error + tokenize_value"

text \<open>Everything outside the strategy that a call can change: the store and the call log.\<close>

record 'st world =
  store :: 'st
  effects :: "event list"

subsection \<open>The strategy's private fields\<close>

text \<open>
  The fields \<open>_boltClient\<close>, \<open>_boltEmbedded\<close>, \<open>_embeddedField\<close>, \<open>_useBoltClient\<close> and
  \<open>_useBoltEmbedded\<close>, without the leading underscore. \<open>_useBoltEmbedded\<close> is assigned
  \<open>bolt.useBigCommerceCheckout && embeddedOneClickEnabled\<close>, which is \<open>undefined\<close> when the
  payment method has no such setting, so the field holds \<open>None\<close> then.
\<close>

record bolt_payment_strategy =
  boltClient :: "bolt_checkout option"
  boltEmbedded :: "bolt_embedded option"
  embeddedField :: "bolt_embedded_field option"
  useBoltClient :: bool
  useBoltEmbedded :: "bool option"

text \<open>The state the constructor leaves: no handle, both flags \<open>false\<close>.\<close>

definition new_strategy :: bolt_payment_strategy where
  "new_strategy =
     \<lparr>boltClient = None, boltEmbedded = None, embeddedField = None,
      useBoltClient = False, useBoltEmbedded = Some False\<rparr>"

type_synonym 'st outcome = "(error + 'st) \<times> bolt_payment_strategy \<times> 'st world"

subsection \<open>Truthiness and the call log\<close>

definition truthy :: "bool option \<Rightarrow> bool" where
  "truthy v = (case v of None \<Rightarrow> False | Some b \<Rightarrow> b)"

text \<open>\<open>a && v\<close> for a boolean \<open>a\<close>: \<open>v\<close> itself when \<open>a\<close> holds, \<open>false\<close> otherwise.\<close>

definition js_and :: "bool \<Rightarrow> bool option \<Rightarrow> bool option" where
  "js_and a v = (if a then v else Some False)"

text \<open>\<open>!s\<close> for a string or \<open>undefined\<close>: true on \<open>undefined\<close> and on the empty string.\<close>

definition not_string :: "jsstring option \<Rightarrow> bool" where
  "not_string v = (case v of None \<Rightarrow> True | Some s \<Rightarrow> s = [])"

definition call :: "event \<Rightarrow> 'st world \<Rightarrow> 'st world" where
  "call ev w = w\<lparr>effects := effects w @ [ev]\<rparr>"

definition dispatch_action :: "'st collaborators \<Rightarrow> action \<Rightarrow> 'st world \<Rightarrow> error option \<times> 'st world" where
  "dispatch_action env a w =
     (case dispatch env a (store w) of
        (r, st) \<Rightarrow> (r, \<lparr>store = st, effects = effects w @ [Dispatch a]\<rparr>))"


section \<open>The operations of the strategy\<close>

subsection \<open>Handle accessors and the embedded field\<close>

definition getBoltClient :: "bolt_payment_strategy \<Rightarrow> error + bolt_checkout" where
  "getBoltClient s =
     (case boltClient s of
        None \<Rightarrow> Inl (NotInitializedError PaymentNotInitialized)
      | Some client \<Rightarrow> Inr client)"

definition getBoltEmbedded :: "bolt_payment_strategy \<Rightarrow> error + bolt_embedded" where
  "getBoltEmbedded s =
     (case boltEmbedded s of
        None \<Rightarrow> Inl (NotInitializedError PaymentNotInitialized)
      | Some embedded \<Rightarrow> Inr embedded)"

text \<open>
  \<open>_mountBoltEmbeddedField\<close>: create the field \<open>payment_field\<close>, mount it at \<open>#containerId\<close>,
  then store the handle. The result is the error thrown, if any, and the new state.
\<close>

definition mountBoltEmbeddedField ::
  "'st collaborators \<Rightarrow> jsstring \<Rightarrow> bolt_payment_strategy \<times> 'st world
   \<Rightarrow> error option \<times> bolt_payment_strategy \<times> 'st world" where
  "mountBoltEmbeddedField env cid sw =
     (case sw of (s, w) \<Rightarrow>
        (case getBoltEmbedded s of
           Inl e \<Rightarrow> (Some e, s, w)
         | Inr embedded \<Rightarrow>
             (let w1 = call (CreateField embedded (js ''payment_field'')) w
              in case createField env embedded (js ''payment_field'') of
                   Inl e \<Rightarrow> (Some e, s, w1)
                 | Inr field \<Rightarrow>
                     (let w2 = call (MountField field (js ''#'' @ cid)) w1
                      in case mountField env field (js ''#'' @ cid) of
                           Some e \<Rightarrow> (Some e, s, w2)
                         | None \<Rightarrow> (None, s\<lparr>embeddedField := Some field\<rparr>, w2)))))"

subsection \<open>initialize, deinitialize, finalize\<close>

definition methodId_not_provided :: jsstring where
  \<open>methodId_not_provided =
     js ''Unable to initialize payment because "options.methodId" argument is not provided.''\<close>

definition containerId_not_provided :: jsstring where
  \<open>containerId_not_provided =
     js ''Unable to initialize payment because "options.bolt.containerId" argument is not provided.''\<close>

text \<open>
  \<open>initialize\<close>. The first branch is the one taken when \<open>bolt?.useBigCommerceCheckout\<close>
  holds. Here and below \<open>the\<close> is applied only to a value that the check before it has shown
  to be present. A call to a collaborator is entered in the call log before its result is
  looked at, and a field assigned before a \<open>throw\<close> stays assigned.
\<close>

definition initialize ::
  "'st collaborators \<Rightarrow> payment_initialize_options
   \<Rightarrow> bolt_payment_strategy \<times> 'st world \<Rightarrow> 'st outcome" where
  "initialize env options sw =
     (case sw of (s, w) \<Rightarrow>
        if not_string (methodId options)
        then (Inl (InvalidArgumentError methodId_not_provided), s, w)
        else if (case bolt options of None \<Rightarrow> False | Some b \<Rightarrow> useBigCommerceCheckout b)
        then
          (let b = the (bolt options);
               paymentMethod = getPaymentMethod env (store w) (the (methodId options));
               initData = (case paymentMethod of None \<Rightarrow> None | Some pm \<Rightarrow> initializationData pm);
               conf = (case paymentMethod of None \<Rightarrow> None | Some pm \<Rightarrow> config pm);
               key = (case initData of None \<Rightarrow> None | Some d \<Rightarrow> publishableKey d);
               devConfig = (case initData of None \<Rightarrow> None | Some d \<Rightarrow> developerConfig d);
               oneClick = (case initData of None \<Rightarrow> None | Some d \<Rightarrow> embeddedOneClickEnabled d);
               test = (case conf of None \<Rightarrow> None | Some c \<Rightarrow> testMode c)
           in if paymentMethod = None \<or> not_string key
              then (Inl (MissingDataError MissingPaymentMethod), s, w)
              else
                (let w1 = call (LoadBoltClient key test devConfig) w
                 in case loadBoltClient env key test devConfig of
                      Inl e \<Rightarrow> (Inl e, s, w1)
                    | Inr client \<Rightarrow>
                        (let s1 = s\<lparr>boltClient := Some client,
                                      useBoltClient := (useBigCommerceCheckout b \<and> \<not> truthy oneClick),
                                      useBoltEmbedded := js_and (useBigCommerceCheckout b) oneClick\<rparr>
                         in if truthy (useBoltEmbedded s1) then
                              (if not_string (containerId b)
                               then (Inl (InvalidArgumentError containerId_not_provided), s1, w1)
                               else
                                 (let w2 = call (LoadBoltEmbedded (the key) test devConfig) w1
                                  in case loadBoltEmbedded env (the key) test devConfig of
                                       Inl e \<Rightarrow> (Inl e, s1, w2)
                                     | Inr embedded \<Rightarrow>
                                         (case mountBoltEmbeddedField env (the (containerId b))
                                                 (s1\<lparr>boltEmbedded := Some embedded\<rparr>, w2) of
                                            (Some e, s3, w3) \<Rightarrow> (Inl e, s3, w3)
                                          | (None, s3, w3) \<Rightarrow> (Inr (store w3), s3, w3))))
                            else (Inr (store w1), s1, w1))))
        else
          (let w1 = call (LoadBoltClient None None None) w
           in case loadBoltClient env None None None of
                Inl e \<Rightarrow> (Inl e, s, w1)
              | Inr client \<Rightarrow> (Inr (store w1), s\<lparr>boltClient := Some client\<rparr>, w1)))"

definition deinitialize :: "bolt_payment_strategy \<times> 'st world \<Rightarrow> 'st outcome" where
  "deinitialize sw =
     (case sw of (s, w) \<Rightarrow>
        (Inr (store w), s\<lparr>boltClient := None, boltEmbedded := None\<rparr>, w))"

definition finalize :: "bolt_payment_strategy \<times> 'st world \<Rightarrow> 'st outcome" where
  "finalize sw = (case sw of (s, w) \<Rightarrow> (Inl OrderFinalizationNotRequiredError, s, w))"


subsection \<open>Validation of a tokenize result\<close>

text \<open>\<open>_validateTokenizeResult\<close>; the separator \<open>0x2D\<close> is the character \<open>-\<close>.\<close>

definition validateTokenizeResult :: "bolt_embedded_tokenize \<Rightarrow> error + unit" where
  "validateTokenizeResult tokenizeResult =
     (let lastFourDigits = to_number (Some (last4 tokenizeResult));
          iinNumber = to_number (Some (bin tokenizeResult));
          expirationMonth = to_number (at_index (js_split (expiration tokenizeResult) 0x2D) 1);
          expirationYear = to_number (at_index (js_split (expiration tokenizeResult) 0x2D) 0)
      in if token tokenizeResult = []
            \<or> isNaN lastFourDigits
            \<or> isNaN iinNumber
            \<or> isNaN expirationMonth
            \<or> isNaN expirationYear
         then Inl (PaymentArgumentInvalidError None)
         else Inr ())"

subsection \<open>execute\<close>

text \<open>The payload that \<open>_executeWithBoltEmbedded\<close> builds from a tokenize result.\<close>

definition embeddedPaymentPayload :: "jsstring \<Rightarrow> bolt_embedded_tokenize \<Rightarrow> payment_payload" where
  "embeddedPaymentPayload mid tokenizeResult =
     \<lparr>payload_methodId = mid,
      payload_paymentData = FormattedPayload
        \<lparr>credit_card_token =
           \<lparr>card_token = token tokenizeResult,
            last_four_digits = to_number (Some (last4 tokenizeResult)),
            iin = to_number (Some (bin tokenizeResult)),
            expiration_month = to_number (at_index (js_split (expiration tokenizeResult) 0x2D) 1),
            expiration_year = to_number (at_index (js_split (expiration tokenizeResult) 0x2D) 0)\<rparr>,
         provider_data = \<lparr>create_account = False, embedded_checkout = True\<rparr>\<rparr>\<rparr>"

text \<open>Dispatch the payment submission and return the store state it resolves with.\<close>

definition submitPayment ::
  "'st collaborators \<Rightarrow> payment_payload \<Rightarrow> bolt_payment_strategy \<times> 'st world \<Rightarrow> 'st outcome" where
  "submitPayment env paymentPayload sw =
     (case sw of (s, w) \<Rightarrow>
        (case dispatch_action env (SubmitPayment paymentPayload) w of
           (Some e, w1) \<Rightarrow> (Inl e, s, w1)
         | (None, w1) \<Rightarrow> (Inr (store w1), s, w1)))"

definition executeWithBoltClient ::
  "'st collaborators \<Rightarrow> order_request_body \<Rightarrow> request_options option
   \<Rightarrow> bolt_payment_strategy \<times> 'st world \<Rightarrow> 'st outcome" where
  "executeWithBoltClient env payload options sw =
     (case sw of (s, w) \<Rightarrow>
        (case getBoltClient s of
           Inl e \<Rightarrow> (Inl e, s, w)
         | Inr client \<Rightarrow>
        (case payment payload of
           None \<Rightarrow> (Inl (PaymentArgumentInvalidError (Some [js ''payment''])), s, w)
         | Some pay \<Rightarrow>
        (case dispatch_action env (SubmitOrder (payload\<lparr>payment := None\<rparr>) options) w of
           (Some e, w1) \<Rightarrow> (Inl e, s, w1)
         | (None, w1) \<Rightarrow>
        (case getCheckoutOrThrow env (store w1) of
           Inl e \<Rightarrow> (Inl e, s, w1)
         | Inr ch \<Rightarrow>
        (case (case isStoreCreditApplied ch of
                 None \<Rightarrow> (None, w1)
               | Some credit \<Rightarrow> dispatch_action env (ApplyStoreCredit credit) w1) of
           (Some e, w2) \<Rightarrow> (Inl e, s, w2)
         | (None, w2) \<Rightarrow>
        (case dispatch_action env (LoadPaymentMethod (payment_methodId pay) options) w2 of
           (Some e, w3) \<Rightarrow> (Inl e, s, w3)
         | (None, w3) \<Rightarrow>
        (let paymentMethod = getPaymentMethod env (store w3) (payment_methodId pay);
             orderToken = (case paymentMethod of None \<Rightarrow> None | Some pm \<Rightarrow> clientToken pm)
         in if paymentMethod = None \<or> not_string orderToken
            then (Inl (MissingDataError MissingPaymentMethod), s, w3)
            else
              (let w4 = call (OpenCheckout client (the orderToken)) w3
               in case openCheckout env client (the orderToken) of
                    CheckoutClose \<Rightarrow> (Inl PaymentMethodCancelledError, s, w4)
                  | CheckoutThrows e \<Rightarrow> (Inl e, s, w4)
                  | CheckoutSuccess transaction \<Rightarrow>
                      (let w5 = call SuccessCallback w4
                       in case paymentData pay of
                            None \<Rightarrow> (Inl TypeError, s, w5)
                          | Some instrument \<Rightarrow>
                              submitPayment env
                                \<lparr>payload_methodId = payment_methodId pay,
                                 payload_paymentData =
                                   NonceData (reference transaction)
                                     (shouldSaveInstrument instrument)\<rparr>
                                (s, w5)))))))))))"

definition executeWithBoltEmbedded ::
  "'st collaborators \<Rightarrow> order_request_body \<Rightarrow> request_options option
   \<Rightarrow> bolt_payment_strategy \<times> 'st world \<Rightarrow> 'st outcome" where
  "executeWithBoltEmbedded env payload options sw =
     (case sw of (s, w) \<Rightarrow>
        (case payment payload of
           None \<Rightarrow> (Inl (PaymentArgumentInvalidError (Some [js ''payment''])), s, w)
         | Some pay \<Rightarrow>
        (case embeddedField s of
           None \<Rightarrow> (Inl PaymentMethodInvalidError, s, w)
         | Some field \<Rightarrow>
        (let w1 = call (Tokenize field) w
         in case tokenize env field of
              Inl e \<Rightarrow> (Inl e, s, w1)
            | Inr TokenizeUndefined \<Rightarrow> (Inl PaymentMethodInvalidError, s, w1)
            | Inr (TokenizeError e) \<Rightarrow> (Inl e, s, w1)
            | Inr (TokenizeResult tokenizeResult) \<Rightarrow>
        (case validateTokenizeResult tokenizeResult of
           Inl e \<Rightarrow> (Inl e, s, w1)
         | Inr u \<Rightarrow>
        (case dispatch_action env (SubmitOrder (payload\<lparr>payment := None\<rparr>) options) w1 of
           (Some e, w2) \<Rightarrow> (Inl e, s, w2)
         | (None, w2) \<Rightarrow>
             submitPayment env (embeddedPaymentPayload (payment_methodId pay) tokenizeResult)
               (s, w2)))))))"

definition executeWithBoltFullCheckout ::
  "'st collaborators \<Rightarrow> order_request_body \<Rightarrow> request_options option
   \<Rightarrow> bolt_payment_strategy \<times> 'st world \<Rightarrow> 'st outcome" where
  "executeWithBoltFullCheckout env payload options sw =
     (case sw of (s, w) \<Rightarrow>
        (case getBoltClient s of
           Inl e \<Rightarrow> (Inl e, s, w)
         | Inr client \<Rightarrow>
        (case payment payload of
           None \<Rightarrow> (Inl (PaymentArgumentInvalidError (Some [js ''payment''])), s, w)
         | Some pay \<Rightarrow>
        if payment_methodId pay = [] then (Inl (MissingDataError MissingPaymentMethod), s, w)
        else
        (case paymentData pay of
           None \<Rightarrow> (Inl (MissingDataError MissingPayment), s, w)
         | Some instrument \<Rightarrow>
        (case dispatch_action env (SubmitOrder (payload\<lparr>payment := None\<rparr>) options) w of
           (Some e, w1) \<Rightarrow> (Inl e, s, w1)
         | (None, w1) \<Rightarrow>
        (let w2 = call (GetTransactionReference client) w1
         in case getTransactionReference env client of
              Inl e \<Rightarrow> (Inl e, s, w2)
            | Inr transactionReference \<Rightarrow>
                if not_string transactionReference
                then (Inl PaymentMethodInvalidError, s, w2)
                else submitPayment env
                       \<lparr>payload_methodId = payment_methodId pay,
                        payload_paymentData =
                          InstrumentWithNonce instrument (the transactionReference)\<rparr>
                       (s, w2)))))))"

definition execute ::
  "'st collaborators \<Rightarrow> order_request_body \<Rightarrow> request_options option
   \<Rightarrow> bolt_payment_strategy \<times> 'st world \<Rightarrow> 'st outcome" where
  "execute env payload options sw =
     (case sw of (s, w) \<Rightarrow>
        if useBoltClient s then executeWithBoltClient env payload options (s, w)
        else if truthy (useBoltEmbedded s) then executeWithBoltEmbedded env payload options (s, w)
        else executeWithBoltFullCheckout env payload options (s, w))"

section \<open>The shipping address fixture\<close>

text \<open>
  The record has the fields of the object literal that \<open>getShippingAddress\<close> returns; the
  field \<open>id\<close> is named \<open>address_id\<close> here, \<open>id\<close> being the identity function of HOL.
\<close>

record internal_address =
  address_id :: jsstring
  firstName :: jsstring
  lastName :: jsstring
  company :: jsstring
  addressLine1 :: jsstring
  addressLine2 :: jsstring
  city :: jsstring
  province :: jsstring
  provinceCode :: jsstring
  postCode :: jsstring
  country :: jsstring
  countryCode :: jsstring
  phone :: jsstring
  customFields :: "(jsstring \<times> jsstring) list"

definition getShippingAddress :: "unit \<Rightarrow> internal_address" where
  "getShippingAddress u =
     \<lparr>address_id = js ''55c96cda6f04c'',
      firstName = js ''Test'',
      lastName = js ''Tester'',
      company = js ''Bigcommerce'',
      addressLine1 = js ''12345 Testing Way'',
      addressLine2 = js '''',
      city = js ''Some City'',
      province = js ''California'',
      provinceCode = js ''CA'',
      postCode = js ''95555'',
      country = js ''United States'',
      countryCode = js ''US'',
      phone = js ''555-555-5555'',
      customFields = []\<rparr>"


section \<open>Notions used to state the properties\<close>

subsection \<open>The numeric strings of the language\<close>

text \<open>
  What it means for a string to be a number is fixed by the language, not by this program:
  the grammar StringNumericLiteral of ECMAScript. It is written here production by
  production, as predicates on strings, without reference to the conversion \<open>to_number\<close>
  above: \<open>Seq\<close> is concatenation, tried at every split of the string, \<open>Opt\<close> an optional
  part, \<open>Lit\<close> a fixed text, \<open>OneOf\<close> one character of a list, \<open>Many\<close> and \<open>Many1\<close> a
  run of such characters. The empty string and a string of white space are numeric strings
  (they denote 0).
\<close>

definition Seq :: "(jsstring \<Rightarrow> bool) \<Rightarrow> (jsstring \<Rightarrow> bool) \<Rightarrow> jsstring \<Rightarrow> bool" where
  "Seq A B s = list_ex (\<lambda>i. A (take i s) \<and> B (drop i s)) [0..<Suc (length s)]"

definition Opt :: "(jsstring \<Rightarrow> bool) \<Rightarrow> jsstring \<Rightarrow> bool" where
  "Opt A s = (s = [] \<or> A s)"

definition Lit :: "string \<Rightarrow> jsstring \<Rightarrow> bool" where
  "Lit t s = (s = js t)"

definition OneOf :: "jsstring \<Rightarrow> jsstring \<Rightarrow> bool" where
  "OneOf cs s = list_ex (\<lambda>c. s = [c]) cs"

definition Many :: "jsstring \<Rightarrow> jsstring \<Rightarrow> bool" where
  "Many cs s = list_all (\<lambda>c. c \<in> set cs) s"

definition Many1 :: "jsstring \<Rightarrow> jsstring \<Rightarrow> bool" where
  "Many1 cs s = (s \<noteq> [] \<and> Many cs s)"

text \<open>
  StrWhiteSpaceChar: the WhiteSpace code points (tab, vertical tab, form feed, the byte order
  mark and the space separators of Unicode) and the LineTerminator code points.
\<close>

definition StrWhiteSpaceChars :: jsstring where
  "StrWhiteSpaceChars =
     [0x0009, 0x000B, 0x000C, 0xFEFF,
      0x0020, 0x00A0, 0x1680, 0x2000, 0x2001, 0x2002, 0x2003, 0x2004, 0x2005, 0x2006,
      0x2007, 0x2008, 0x2009, 0x200A, 0x202F, 0x205F, 0x3000,
      0x000A, 0x000D, 0x2028, 0x2029]"

definition StrWhiteSpace :: "jsstring \<Rightarrow> bool" where
  "StrWhiteSpace = Many StrWhiteSpaceChars"

definition DecimalDigits :: "jsstring \<Rightarrow> bool" where
  "DecimalDigits = Many1 (js ''0123456789'')"

definition SignedInteger :: "jsstring \<Rightarrow> bool" where
  "SignedInteger s =
     (DecimalDigits s \<or> Seq (Lit ''+'') DecimalDigits s \<or> Seq (Lit ''-'') DecimalDigits s)"

definition ExponentPart :: "jsstring \<Rightarrow> bool" where
  "ExponentPart = Seq (OneOf (js ''eE'')) SignedInteger"

definition StrUnsignedDecimalLiteral :: "jsstring \<Rightarrow> bool" where
  "StrUnsignedDecimalLiteral s =
     (Lit ''Infinity'' s
      \<or> Seq DecimalDigits (Seq (Lit ''.'') (Seq (Opt DecimalDigits) (Opt ExponentPart))) s
      \<or> Seq (Lit ''.'') (Seq DecimalDigits (Opt ExponentPart)) s
      \<or> Seq DecimalDigits (Opt ExponentPart) s)"

definition StrDecimalLiteral :: "jsstring \<Rightarrow> bool" where
  "StrDecimalLiteral s =
     (StrUnsignedDecimalLiteral s
      \<or> Seq (Lit ''+'') StrUnsignedDecimalLiteral s
      \<or> Seq (Lit ''-'') StrUnsignedDecimalLiteral s)"

definition BinaryIntegerLiteral :: "jsstring \<Rightarrow> bool" where
  "BinaryIntegerLiteral = Seq (Lit ''0'') (Seq (OneOf (js ''bB'')) (Many1 (js ''01'')))"

definition OctalIntegerLiteral :: "jsstring \<Rightarrow> bool" where
  "OctalIntegerLiteral = Seq (Lit ''0'') (Seq (OneOf (js ''oO'')) (Many1 (js ''01234567'')))"

definition HexIntegerLiteral :: "jsstring \<Rightarrow> bool" where
  "HexIntegerLiteral =
     Seq (Lit ''0'') (Seq (OneOf (js ''xX'')) (Many1 (js ''0123456789abcdefABCDEF'')))"

definition NonDecimalIntegerLiteral :: "jsstring \<Rightarrow> bool" where
  "NonDecimalIntegerLiteral s =
     (BinaryIntegerLiteral s \<or> OctalIntegerLiteral s \<or> HexIntegerLiteral s)"

definition StrNumericLiteral :: "jsstring \<Rightarrow> bool" where
  "StrNumericLiteral s = (StrDecimalLiteral s \<or> NonDecimalIntegerLiteral s)"

definition StringNumericLiteral :: "jsstring \<Rightarrow> bool" where
  "StringNumericLiteral = Seq StrWhiteSpace (Seq (Opt StrNumericLiteral) StrWhiteSpace)"

subsection \<open>Validity of a tokenize result\<close>

text \<open>
  A value parses as a valid number when it is a string, not \<open>undefined\<close>, and a numeric
  string of the language.
\<close>

definition parses_as_valid_number :: "jsstring option \<Rightarrow> bool" where
  "parses_as_valid_number v = (case v of None \<Rightarrow> False | Some s \<Rightarrow> StringNumericLiteral s)"

text \<open>
  The pieces of the expiration split on \<open>-\<close> (code unit \<open>0x2D\<close>): the year is piece 0, the
  text before the first \<open>-\<close>; the month is piece 1, the text between the first \<open>-\<close> and the
  next one or the end, and there is no month when the expiration has no \<open>-\<close>.
\<close>

definition expirationYearText :: "jsstring \<Rightarrow> jsstring option" where
  "expirationYearText e = Some (takeWhile (\<lambda>c. c \<noteq> 0x2D) e)"

definition expirationMonthText :: "jsstring \<Rightarrow> jsstring option" where
  "expirationMonthText e =
     (if 0x2D \<in> set e
      then Some (takeWhile (\<lambda>c. c \<noteq> 0x2D) (tl (dropWhile (\<lambda>c. c \<noteq> 0x2D) e)))
      else None)"

text \<open>
  Validity of a tokenize result as the specification words it: the token is non-empty, and
  the last four digits, the bank identifier number, the expiration month and the expiration
  year all parse as valid numbers.
\<close>

definition tokenize_result_valid :: "bolt_embedded_tokenize \<Rightarrow> bool" where
  "tokenize_result_valid r =
     (token r \<noteq> []
      \<and> parses_as_valid_number (Some (last4 r))
      \<and> parses_as_valid_number (Some (bin r))
      \<and> parses_as_valid_number (expirationMonthText (expiration r))
      \<and> parses_as_valid_number (expirationYearText (expiration r)))"

subsection \<open>Mode selection\<close>

text \<open>The two configuration flags that \<open>initialize\<close> reads, as truth values.\<close>

definition bigCommerceCheckoutRequested :: "payment_initialize_options \<Rightarrow> bool" where
  "bigCommerceCheckoutRequested options =
     (case bolt options of None \<Rightarrow> False | Some b \<Rightarrow> useBigCommerceCheckout b)"

definition oneClickEnabled :: "'st collaborators \<Rightarrow> 'st \<Rightarrow> payment_initialize_options \<Rightarrow> bool" where
  "oneClickEnabled env st options =
     (case methodId options of
        None \<Rightarrow> False
      | Some mid \<Rightarrow>
          (case getPaymentMethod env st mid of
             None \<Rightarrow> False
           | Some pm \<Rightarrow>
               (case initializationData pm of
                  None \<Rightarrow> False
                | Some d \<Rightarrow> truthy (embeddedOneClickEnabled d))))"

text \<open>
  The mode selection as a function of the two flags: the pair of truth values of
  \<open>_useBoltClient\<close> and \<open>_useBoltEmbedded\<close>.
\<close>

definition selectedFlags :: "bool \<Rightarrow> bool \<Rightarrow> bool \<times> bool" where
  "selectedFlags checkoutRequested oneClick =
     (checkoutRequested \<and> \<not> oneClick, checkoutRequested \<and> oneClick)"

definition modeFlags :: "bolt_payment_strategy \<Rightarrow> bool \<times> bool" where
  "modeFlags s = (useBoltClient s, truthy (useBoltEmbedded s))"

subsection \<open>Concrete collaborators and inputs\<close>

text \<open>
  Collaborators whose store state is the list of the actions dispatched so far. Every call
  succeeds; the payment method looked up and the value \<open>tokenize()\<close> resolves to are
  parameters.
\<close>

definition recordingCollaborators ::
  "payment_method option \<Rightarrow> tokenize_value \<Rightarrow> action list collaborators" where
  "recordingCollaborators pm tv =
     \<lparr>getPaymentMethod = (\<lambda>st mid. pm),
      getCheckoutOrThrow = (\<lambda>st. Inr \<lparr>isStoreCreditApplied = None\<rparr>),
      dispatch = (\<lambda>a st. (None, st @ [a])),
      loadBoltClient = (\<lambda>key test dev. Inr (BoltCheckout 1)),
      loadBoltEmbedded = (\<lambda>key test dev. Inr (BoltEmbedded 2)),
      createField = (\<lambda>embedded name. Inr (BoltEmbeddedField 3)),
      mountField = (\<lambda>field selector. None),
      openCheckout = (\<lambda>client orderToken. CheckoutSuccess \<lparr>reference = js ''ref_1''\<rparr>),
      getTransactionReference = (\<lambda>client. Inr (Some (js ''ref_1''))),
      tokenize = (\<lambda>field. Inr tv)\<rparr>"

definition boltMethod :: "bool option \<Rightarrow> payment_method" where
  "boltMethod oneClick =
     \<lparr>initializationData =
        Some \<lparr>publishableKey = Some (js ''key_1''), developerConfig = None,
              embeddedOneClickEnabled = oneClick\<rparr>,
      config = Some \<lparr>testMode = Some True\<rparr>,
      clientToken = Some (js ''order_1'')\<rparr>"

definition tokenizeResult1 :: bolt_embedded_tokenize where
  "tokenizeResult1 =
     \<lparr>token = js ''tok_1'', last4 = js ''4242'', bin = js ''411111'',
      expiration = js ''2025-09''\<rparr>"

definition initializeOptions :: "bool \<Rightarrow> jsstring option \<Rightarrow> payment_initialize_options" where
  "initializeOptions checkoutRequested container =
     \<lparr>methodId = Some (js ''bolt''),
      bolt = Some \<lparr>useBigCommerceCheckout = checkoutRequested, containerId = container\<rparr>\<rparr>"

definition emptyWorld :: "action list world" where
  "emptyWorld = \<lparr>store = [], effects = []\<rparr>"

definition payloadWithoutPayment :: order_request_body where
  "payloadWithoutPayment = \<lparr>payment = None, useStoreCredit = Some False\<rparr>"

definition payloadWithPayment :: order_request_body where
  "payloadWithPayment =
     \<lparr>payment = Some \<lparr>payment_methodId = js ''bolt'',
                       paymentData = Some \<lparr>shouldSaveInstrument = Some False,
                                           otherFields = js ''''\<rparr>\<rparr>,
      useStoreCredit = Some False\<rparr>"


text \<open>
  The collaborators of three shops: one whose Bolt method has one-click checkout switched
  off, one that has it switched on, and one whose Bolt method does not have the setting.
\<close>

definition clientOnlyShop :: "action list collaborators" where
  "clientOnlyShop = recordingCollaborators (Some (boltMethod (Some False))) TokenizeUndefined"

definition embeddedShop :: "action list collaborators" where
  "embeddedShop = recordingCollaborators (Some (boltMethod (Some True))) (TokenizeResult tokenizeResult1)"

definition unsetShop :: "action list collaborators" where
  "unsetShop = recordingCollaborators (Some (boltMethod None)) TokenizeUndefined"

text \<open>The strategy and the world after a successful \<open>initialize\<close> in each of the three modes.\<close>

definition clientOnlyStrategy :: bolt_payment_strategy where
  "clientOnlyStrategy =
     \<lparr>boltClient = Some (BoltCheckout 1), boltEmbedded = None, embeddedField = None,
      useBoltClient = True, useBoltEmbedded = Some False\<rparr>"

definition embeddedStrategy :: bolt_payment_strategy where
  "embeddedStrategy =
     \<lparr>boltClient = Some (BoltCheckout 1), boltEmbedded = Some (BoltEmbedded 2),
      embeddedField = Some (BoltEmbeddedField 3),
      useBoltClient = False, useBoltEmbedded = Some True\<rparr>"

definition fullCheckoutStrategy :: bolt_payment_strategy where
  "fullCheckoutStrategy =
     \<lparr>boltClient = Some (BoltCheckout 1), boltEmbedded = None, embeddedField = None,
      useBoltClient = False, useBoltEmbedded = Some False\<rparr>"

definition clientLoadedWorld :: "action list world" where
  "clientLoadedWorld =
     \<lparr>store = [], effects = [LoadBoltClient (Some (js ''key_1'')) (Some True) None]\<rparr>"

definition fieldMountedWorld :: "action list world" where
  "fieldMountedWorld =
     \<lparr>store = [],
      effects = [LoadBoltClient (Some (js ''key_1'')) (Some True) None,
                 LoadBoltEmbedded (js ''key_1'') (Some True) None,
                 CreateField (BoltEmbedded 2) (js ''payment_field''),
                 MountField (BoltEmbeddedField 3) (js ''#container'')]\<rparr>"

definition plainClientLoadedWorld :: "action list world" where
  "plainClientLoadedWorld = \<lparr>store = [], effects = [LoadBoltClient None None None]\<rparr>"

text \<open>The world after a second \<open>initialize\<close>, without a key, of that strategy.\<close>

definition reloadedWorld :: "action list world" where
  "reloadedWorld =
     \<lparr>store = [],
      effects = [LoadBoltClient (Some (js ''key_1'')) (Some True) None,
                 LoadBoltClient None None None]\<rparr>"

text \<open>
  The strategy after an \<open>initialize\<close> in embedded mode that failed for want of a container:
  the flags are written, the field is not mounted.
\<close>

definition fieldlessStrategy :: bolt_payment_strategy where
  "fieldlessStrategy =
     \<lparr>boltClient = Some (BoltCheckout 1), boltEmbedded = None, embeddedField = None,
      useBoltClient = False, useBoltEmbedded = Some True\<rparr>"


section \<open>Properties\<close>

subsection \<open>Auxiliary facts\<close>

lemmas number_defs =
  to_number_def string_to_number_def trim_def is_str_white_space_def
  non_decimal_integer_literal_def str_decimal_literal_def str_unsigned_decimal_literal_def
  is_decimal_digit_def exponent_part_def digits_value_def digit_value_def scale10_def js_def

lemmas example_defs =
  recordingCollaborators_def boltMethod_def initializeOptions_def emptyWorld_def
  payloadWithoutPayment_def payloadWithPayment_def new_strategy_def

lemmas initialize_defs =
  initialize_def mountBoltEmbeddedField_def
  getBoltEmbedded_def not_string_def js_and_def truthy_def call_def Let_def

lemma isNaN_iff: "isNaN n = (n = NaN)"
  by (cases n) (simp_all add: isNaN_def)

subsection \<open>The conversion accepts the numeric strings of the language\<close>

lemma Seq_iff: "Seq A B s = (\<exists>a b. s = a @ b \<and> A a \<and> B b)"
proof
  assume "Seq A B s"
  then obtain i where "A (take i s)" "B (drop i s)"
    unfolding Seq_def list_ex_iff by blast
  then show "\<exists>a b. s = a @ b \<and> A a \<and> B b"
    by (metis append_take_drop_id)
next
  assume "\<exists>a b. s = a @ b \<and> A a \<and> B b"
  then obtain a b where "s = a @ b" "A a" "B b"
    by auto
  then have "length a < Suc (length s) \<and> A (take (length a) s) \<and> B (drop (length a) s)"
    by simp
  then show "Seq A B s"
    unfolding Seq_def list_ex_iff by (metis atLeastLessThan_iff less_eq_nat.simps(1) set_upt)
qed

lemma SeqE:
  assumes "Seq A B s"
  obtains a b where "s = a @ b" "A a" "B b"
  using assms unfolding Seq_iff by blast

lemma SeqI: "A a \<Longrightarrow> B b \<Longrightarrow> Seq A B (a @ b)"
  unfolding Seq_iff by blast

lemma Many_iff: "Many cs s = (\<forall>c \<in> set s. c \<in> set cs)"
  by (simp add: Many_def list_all_iff)

lemma OneOf_iff: "OneOf cs s = (\<exists>c \<in> set cs. s = [c])"
  by (simp add: OneOf_def list_ex_iff)

lemma Seq_OneOf: "Seq (OneOf cs) B s = (\<exists>c r. s = c # r \<and> c \<in> set cs \<and> B r)"
proof
  assume "Seq (OneOf cs) B s"
  then show "\<exists>c r. s = c # r \<and> c \<in> set cs \<and> B r"
    by (auto simp: Seq_iff OneOf_iff)
next
  assume "\<exists>c r. s = c # r \<and> c \<in> set cs \<and> B r"
  then obtain c r where "s = [c] @ r" "c \<in> set cs" "B r"
    by auto
  then show "Seq (OneOf cs) B s"
    unfolding Seq_iff OneOf_iff by blast
qed

lemma Seq_Lit1: "Seq (Lit [ch]) B s = (\<exists>r. s = of_char ch # r \<and> B r)"
  by (simp add: Seq_iff Lit_def js_def)

lemma decimal_digit_iff: "(c \<in> set (js ''0123456789'')) = is_decimal_digit c"
  by (simp add: is_decimal_digit_def js_def word_le_nat_alt word_unat_eq_iff) arith

lemma binary_digit_iff: "(c \<in> set (js ''01'')) = is_binary_digit c"
  by (simp add: is_binary_digit_def js_def)

lemma octal_digit_iff: "(c \<in> set (js ''01234567'')) = is_octal_digit c"
  by (simp add: is_octal_digit_def js_def word_le_nat_alt word_unat_eq_iff) arith

lemma hex_digit_iff: "(c \<in> set (js ''0123456789abcdefABCDEF'')) = is_hex_digit c"
  by (simp add: is_hex_digit_def js_def word_le_nat_alt word_unat_eq_iff) arith

lemma white_space_iff: "(c \<in> set StrWhiteSpaceChars) = is_str_white_space c"
  by (simp add: is_str_white_space_def StrWhiteSpaceChars_def word_le_nat_alt word_unat_eq_iff)
    arith

lemma DecimalDigits_iff: "DecimalDigits s = (s \<noteq> [] \<and> list_all is_decimal_digit s)"
  by (simp add: DecimalDigits_def Many1_def Many_iff decimal_digit_iff list_all_iff)

lemma StrWhiteSpace_iff: "StrWhiteSpace s = list_all is_str_white_space s"
  by (simp add: StrWhiteSpace_def Many_iff white_space_iff list_all_iff)

lemma signed_integer_iff: "(signed_integer s \<noteq> None) = SignedInteger s"
  by (cases s)
    (auto simp: signed_integer_def SignedInteger_def Seq_Lit1 DecimalDigits_iff
      is_decimal_digit_def)

lemma exponent_part_iff: "(exponent_part s \<noteq> None) = Opt ExponentPart s"
  by (cases s)
    (auto simp: exponent_part_def Opt_def ExponentPart_def Seq_OneOf js_def
      signed_integer_iff [symmetric])

text \<open>A run of characters of one class ends where the next character is not of the class.\<close>

lemma takeWhile_run:
  "list_all P xs \<Longrightarrow> (case ys of [] \<Rightarrow> True | y # r \<Rightarrow> \<not> P y)
   \<Longrightarrow> takeWhile P (xs @ ys) = xs \<and> dropWhile P (xs @ ys) = ys"
  by (induction xs) (auto split: list.splits)

lemma Opt_ExponentPart_head:
  "Opt ExponentPart e \<Longrightarrow> (case e of [] \<Rightarrow> True | y # r \<Rightarrow> \<not> is_decimal_digit y \<and> y \<noteq> 0x2E)"
  by (auto simp: Opt_def ExponentPart_def Seq_OneOf js_def is_decimal_digit_def split: list.splits)

lemma unsigned_cases:
  assumes "StrUnsignedDecimalLiteral s"
  obtains (infinity) "s = js ''Infinity''"
  | (point) ds fs e where "s = ds @ 0x2E # fs @ e" "DecimalDigits ds" "Opt DecimalDigits fs"
      "Opt ExponentPart e"
  | (fraction) fs e where "s = 0x2E # fs @ e" "DecimalDigits fs" "Opt ExponentPart e"
  | (plain) ds e where "s = ds @ e" "DecimalDigits ds" "Opt ExponentPart e"
proof -
  from assms have "s = js ''Infinity''
      \<or> Seq DecimalDigits (Seq (Lit ''.'') (Seq (Opt DecimalDigits) (Opt ExponentPart))) s
      \<or> Seq (Lit ''.'') (Seq DecimalDigits (Opt ExponentPart)) s
      \<or> Seq DecimalDigits (Opt ExponentPart) s"
    by (simp add: StrUnsignedDecimalLiteral_def Lit_def)
  then show thesis
  proof (elim disjE)
    assume "s = js ''Infinity''"
    then show thesis by (rule infinity)
  next
    assume "Seq DecimalDigits (Seq (Lit ''.'') (Seq (Opt DecimalDigits) (Opt ExponentPart))) s"
    then obtain ds r where 1: "s = ds @ r" "DecimalDigits ds"
      "Seq (Lit ''.'') (Seq (Opt DecimalDigits) (Opt ExponentPart)) r"
      by (rule SeqE)
    from 1(3) obtain t where 2: "r = 0x2E # t" "Seq (Opt DecimalDigits) (Opt ExponentPart) t"
      by (auto simp: Seq_Lit1)
    from 2(2) obtain fs e where 3: "t = fs @ e" "Opt DecimalDigits fs" "Opt ExponentPart e"
      by (rule SeqE)
    show thesis
      using 1 2 3 by (intro point [of ds fs e]) simp_all
  next
    assume "Seq (Lit ''.'') (Seq DecimalDigits (Opt ExponentPart)) s"
    then obtain t where 2: "s = 0x2E # t" "Seq DecimalDigits (Opt ExponentPart) t"
      by (auto simp: Seq_Lit1)
    from 2(2) obtain fs e where 3: "t = fs @ e" "DecimalDigits fs" "Opt ExponentPart e"
      by (rule SeqE)
    show thesis
      using 2 3 by (intro fraction [of fs e]) simp_all
  next
    assume "Seq DecimalDigits (Opt ExponentPart) s"
    then obtain ds e where 3: "s = ds @ e" "DecimalDigits ds" "Opt ExponentPart e"
      by (rule SeqE)
    then show thesis
      by (intro plain [of ds e])
  qed
qed

lemma unsigned_accepts:
  assumes "StrUnsignedDecimalLiteral s"
  shows "str_unsigned_decimal_literal s \<noteq> NaN"
proof (cases "s = js ''Infinity''")
  case True
  then show ?thesis by (simp add: str_unsigned_decimal_literal_def)
next
  case False
  from assms False consider
    (point) ds fs e where "s = ds @ 0x2E # fs @ e" "DecimalDigits ds" "Opt DecimalDigits fs"
      "Opt ExponentPart e"
    | (fraction) fs e where "s = 0x2E # fs @ e" "DecimalDigits fs" "Opt ExponentPart e"
    | (plain) ds e where "s = ds @ e" "DecimalDigits ds" "Opt ExponentPart e"
    by (auto elim: unsigned_cases)
  then show ?thesis
  proof cases
    case point
    have fs: "list_all is_decimal_digit fs"
      using point(3) by (auto simp: Opt_def DecimalDigits_iff)
    have 1: "takeWhile is_decimal_digit s = ds" "dropWhile is_decimal_digit s = 0x2E # fs @ e"
      using takeWhile_run [of is_decimal_digit ds "0x2E # fs @ e"] point(1,2)
      by (simp_all add: DecimalDigits_iff is_decimal_digit_def)
    have 2: "takeWhile is_decimal_digit (fs @ e) = fs" "dropWhile is_decimal_digit (fs @ e) = e"
      using takeWhile_run [of is_decimal_digit fs e] fs Opt_ExponentPart_head [OF point(4)]
      by (auto split: list.splits)
    from point(2) have "ds \<noteq> []" by (simp add: DecimalDigits_iff)
    moreover from point(4) obtain x where "exponent_part e = Some x"
      using exponent_part_iff [of e] by auto
    ultimately show ?thesis
      using False by (simp add: str_unsigned_decimal_literal_def 1 2 Let_def)
  next
    case fraction
    have 1: "takeWhile is_decimal_digit s = []" "dropWhile is_decimal_digit s = 0x2E # fs @ e"
      using fraction(1) by (simp_all add: is_decimal_digit_def)
    have 2: "takeWhile is_decimal_digit (fs @ e) = fs" "dropWhile is_decimal_digit (fs @ e) = e"
      using takeWhile_run [of is_decimal_digit fs e] fraction(2) Opt_ExponentPart_head [OF fraction(3)]
      by (auto simp: DecimalDigits_iff split: list.splits)
    from fraction(2) have "fs \<noteq> []" by (simp add: DecimalDigits_iff)
    moreover from fraction(3) obtain x where "exponent_part e = Some x"
      using exponent_part_iff [of e] by auto
    ultimately show ?thesis
      using False by (simp add: str_unsigned_decimal_literal_def 1 2 Let_def)
  next
    case plain
    have 1: "takeWhile is_decimal_digit s = ds" "dropWhile is_decimal_digit s = e"
      using takeWhile_run [of is_decimal_digit ds e] plain(1,2) Opt_ExponentPart_head [OF plain(3)]
      by (auto simp: DecimalDigits_iff split: list.splits)
    have 2: "(case e of [] \<Rightarrow> False | c # r \<Rightarrow> c = 0x2E) = False"
      using Opt_ExponentPart_head [OF plain(3)] by (auto split: list.splits)
    from plain(2) have "ds \<noteq> []" by (simp add: DecimalDigits_iff)
    moreover from plain(3) obtain x where "exponent_part e = Some x"
      using exponent_part_iff [of e] by auto
    ultimately show ?thesis
      using False by (simp add: str_unsigned_decimal_literal_def 1 2 Let_def)
  qed
qed

lemma unsigned_accepted:
  assumes "str_unsigned_decimal_literal s \<noteq> NaN"
  shows "StrUnsignedDecimalLiteral s"
proof (cases "s = js ''Infinity''")
  case True
  then show ?thesis by (simp add: StrUnsignedDecimalLiteral_def Lit_def)
next
  case False
  define ip where "ip = takeWhile is_decimal_digit s"
  define r1 where "r1 = dropWhile is_decimal_digit s"
  have s: "s = ip @ r1" and ip: "list_all is_decimal_digit ip"
    by (simp_all add: ip_def r1_def list_all_iff) (meson set_takeWhileD)
  show ?thesis
  proof (cases "case r1 of [] \<Rightarrow> False | c # r \<Rightarrow> c = 0x2E")
    case True
    then obtain t where r1: "r1 = 0x2E # t"
      by (auto split: list.splits)
    define fp where "fp = takeWhile is_decimal_digit t"
    define r2 where "r2 = dropWhile is_decimal_digit t"
    have t: "t = fp @ r2" and fp: "list_all is_decimal_digit fp"
      by (simp_all add: fp_def r2_def list_all_iff) (meson set_takeWhileD)
    from assms False have ok: "ip \<noteq> [] \<or> fp \<noteq> []" "exponent_part r2 \<noteq> None"
      using r1 by (auto simp: str_unsigned_decimal_literal_def Let_def ip_def [symmetric]
          r1_def [symmetric] fp_def [symmetric] r2_def [symmetric] split: if_splits option.splits)
    then have e: "Opt ExponentPart r2"
      using exponent_part_iff by blast
    show ?thesis
    proof (cases "ip = []")
      case True
      with ok have "DecimalDigits fp" using fp by (simp add: DecimalDigits_iff)
      with e have "Seq DecimalDigits (Opt ExponentPart) (fp @ r2)"
        by (intro SeqI)
      then have "Seq (Lit ''.'') (Seq DecimalDigits (Opt ExponentPart)) s"
        using s r1 t True by (simp add: Seq_Lit1)
      then show ?thesis by (simp add: StrUnsignedDecimalLiteral_def)
    next
      case False
      then have "DecimalDigits ip" using ip by (simp add: DecimalDigits_iff)
      moreover have "Opt DecimalDigits fp" using fp by (auto simp: Opt_def DecimalDigits_iff)
      moreover have "Seq (Lit ''.'') (Seq (Opt DecimalDigits) (Opt ExponentPart)) r1"
        using SeqI [of "Opt DecimalDigits" fp "Opt ExponentPart" r2] fp e r1 t
        by (auto simp: Seq_Lit1 Opt_def DecimalDigits_iff)
      ultimately have "Seq DecimalDigits (Seq (Lit ''.'') (Seq (Opt DecimalDigits) (Opt ExponentPart))) s"
        unfolding s by (intro SeqI)
      then show ?thesis by (simp add: StrUnsignedDecimalLiteral_def)
    qed
  next
    case nopoint: False
    from assms False have ok: "ip \<noteq> []" "exponent_part r1 \<noteq> None"
      using nopoint by (auto simp: str_unsigned_decimal_literal_def Let_def ip_def [symmetric]
          r1_def [symmetric] split: if_splits option.splits)
    then have "DecimalDigits ip" "Opt ExponentPart r1"
      using ip exponent_part_iff by (auto simp: DecimalDigits_iff)
    then have "Seq DecimalDigits (Opt ExponentPart) s"
      unfolding s by (intro SeqI)
    then show ?thesis by (simp add: StrUnsignedDecimalLiteral_def)
  qed
qed

lemma unsigned_iff: "(str_unsigned_decimal_literal s \<noteq> NaN) = StrUnsignedDecimalLiteral s"
  using unsigned_accepts unsigned_accepted by blast

text \<open>An unsigned decimal literal does not begin with a sign.\<close>

lemma unsigned_head:
  assumes "StrUnsignedDecimalLiteral s"
  shows "\<exists>c r. s = c # r \<and> c \<noteq> 0x2B \<and> c \<noteq> 0x2D"
  using assms
proof (cases rule: unsigned_cases)
  case infinity
  then show ?thesis by (simp add: js_def)
next
  case (point ds fs e)
  then show ?thesis
    by (cases ds) (auto simp: DecimalDigits_iff is_decimal_digit_def)
next
  case (fraction fs e)
  then show ?thesis by simp
next
  case (plain ds e)
  then show ?thesis
    by (cases ds) (auto simp: DecimalDigits_iff is_decimal_digit_def)
qed

lemma negate_NaN: "(negate n = NaN) = (n = NaN)"
  by (cases n) (simp_all add: negate_def)

lemma decimal_iff: "(str_decimal_literal s \<noteq> NaN) = StrDecimalLiteral s"
proof (cases s)
  case Nil
  then show ?thesis
    using unsigned_head [of s]
    by (auto simp: str_decimal_literal_def StrDecimalLiteral_def Seq_Lit1)
next
  case (Cons c r)
  consider "c = 0x2B" | "c = 0x2D" | "c \<noteq> 0x2B" "c \<noteq> 0x2D"
    by blast
  then show ?thesis
  proof cases
    case 1
    then show ?thesis
      using Cons unsigned_head [of s]
      by (auto simp: str_decimal_literal_def StrDecimalLiteral_def Seq_Lit1 unsigned_iff)
  next
    case 2
    then show ?thesis
      using Cons unsigned_head [of s]
      by (auto simp: str_decimal_literal_def StrDecimalLiteral_def Seq_Lit1 unsigned_iff
          negate_NaN)
  next
    case 3
    then show ?thesis
      using Cons
      by (auto simp: str_decimal_literal_def StrDecimalLiteral_def Seq_Lit1 unsigned_iff)
  qed
qed

lemma Many1_iff: "Many1 cs ds = (ds \<noteq> [] \<and> list_all (\<lambda>c. c \<in> set cs) ds)"
  by (simp add: Many1_def Many_def)

lemma Binary_iff:
  "BinaryIntegerLiteral s =
     (\<exists>c1 ds. s = 0x30 # c1 # ds \<and> (c1 = 0x62 \<or> c1 = 0x42) \<and> ds \<noteq> []
        \<and> list_all is_binary_digit ds)"
  unfolding BinaryIntegerLiteral_def Seq_Lit1 Seq_OneOf Many1_iff binary_digit_iff
  by (simp add: js_def) blast

lemma Octal_iff:
  "OctalIntegerLiteral s =
     (\<exists>c1 ds. s = 0x30 # c1 # ds \<and> (c1 = 0x6F \<or> c1 = 0x4F) \<and> ds \<noteq> []
        \<and> list_all is_octal_digit ds)"
  unfolding OctalIntegerLiteral_def Seq_Lit1 Seq_OneOf Many1_iff octal_digit_iff
  by (simp add: js_def) blast

lemma Hex_iff:
  "HexIntegerLiteral s =
     (\<exists>c1 ds. s = 0x30 # c1 # ds \<and> (c1 = 0x78 \<or> c1 = 0x58) \<and> ds \<noteq> []
        \<and> list_all is_hex_digit ds)"
  unfolding HexIntegerLiteral_def Seq_Lit1 Seq_OneOf Many1_iff hex_digit_iff
  by (simp add: js_def) blast

lemma non_decimal_iff: "(non_decimal_integer_literal s \<noteq> None) = NonDecimalIntegerLiteral s"
proof (cases s)
  case Nil
  then show ?thesis
    by (simp add: non_decimal_integer_literal_def NonDecimalIntegerLiteral_def
        Binary_iff Octal_iff Hex_iff)
next
  case outer: (Cons c0 r)
  show ?thesis
  proof (cases r)
    case Nil
    then show ?thesis
      using outer
      by (simp add: non_decimal_integer_literal_def NonDecimalIntegerLiteral_def
          Binary_iff Octal_iff Hex_iff)
  next
    case (Cons c1 ds)
    then have s: "s = c0 # c1 # ds"
      using outer by simp
    show ?thesis
      unfolding s NonDecimalIntegerLiteral_def Binary_iff Octal_iff Hex_iff
      by (simp add: non_decimal_integer_literal_def)
  qed
qed

lemma digit_no_space: "is_decimal_digit c \<Longrightarrow> \<not> is_str_white_space c"
  by (simp add: is_decimal_digit_def is_str_white_space_def word_le_nat_alt word_unat_eq_iff)

lemma hex_no_space: "is_hex_digit c \<Longrightarrow> \<not> is_str_white_space c"
  by (auto simp: is_hex_digit_def is_str_white_space_def word_le_nat_alt word_unat_eq_iff)

lemma binary_hex: "is_binary_digit c \<Longrightarrow> is_hex_digit c"
  by (auto simp: is_binary_digit_def is_hex_digit_def)

lemma octal_hex: "is_octal_digit c \<Longrightarrow> is_hex_digit c"
  by (auto simp: is_octal_digit_def is_hex_digit_def word_le_nat_alt)

lemma marks_no_space:
  "\<not> is_str_white_space 0x2B" "\<not> is_str_white_space 0x2D" "\<not> is_str_white_space 0x2E"
  "\<not> is_str_white_space 0x65" "\<not> is_str_white_space 0x45" "\<not> is_str_white_space 0x30"
  "\<not> is_str_white_space 0x62" "\<not> is_str_white_space 0x42" "\<not> is_str_white_space 0x6F"
  "\<not> is_str_white_space 0x4F" "\<not> is_str_white_space 0x78" "\<not> is_str_white_space 0x58"
  by (simp_all add: is_str_white_space_def)

lemma Infinity_no_space: "\<forall>c \<in> set (js ''Infinity''). \<not> is_str_white_space c"
  by (simp add: js_def is_str_white_space_def)

lemma DecimalDigits_no_space:
  "DecimalDigits ds \<Longrightarrow> \<forall>c \<in> set ds. \<not> is_str_white_space c"
  by (auto simp: DecimalDigits_iff list_all_iff digit_no_space)

lemma Opt_DecimalDigits_no_space:
  "Opt DecimalDigits ds \<Longrightarrow> \<forall>c \<in> set ds. \<not> is_str_white_space c"
  by (auto simp: Opt_def DecimalDigits_iff list_all_iff digit_no_space)

lemma SignedInteger_no_space:
  "SignedInteger s \<Longrightarrow> \<forall>c \<in> set s. \<not> is_str_white_space c"
  using DecimalDigits_no_space
  by (auto simp: SignedInteger_def Seq_Lit1 marks_no_space)

lemma Opt_ExponentPart_no_space:
  "Opt ExponentPart e \<Longrightarrow> \<forall>c \<in> set e. \<not> is_str_white_space c"
  using SignedInteger_no_space
  by (auto simp: Opt_def ExponentPart_def Seq_OneOf js_def marks_no_space)

lemma unsigned_no_space:
  assumes "StrUnsignedDecimalLiteral s"
  shows "\<forall>c \<in> set s. \<not> is_str_white_space c"
  using assms
proof (cases rule: unsigned_cases)
  case infinity
  show ?thesis unfolding infinity by (rule Infinity_no_space)
next
  case (point ds fs e)
  then show ?thesis
    using DecimalDigits_no_space [of ds] Opt_DecimalDigits_no_space [of fs]
      Opt_ExponentPart_no_space [of e]
    by (auto simp: marks_no_space)
next
  case (fraction fs e)
  then show ?thesis
    using DecimalDigits_no_space [of fs] Opt_ExponentPart_no_space [of e]
    by (auto simp: marks_no_space)
next
  case (plain ds e)
  then show ?thesis
    using DecimalDigits_no_space [of ds] Opt_ExponentPart_no_space [of e]
    by auto
qed

lemma decimal_no_space:
  "StrDecimalLiteral s \<Longrightarrow> s \<noteq> [] \<and> (\<forall>c \<in> set s. \<not> is_str_white_space c)"
  using unsigned_no_space unsigned_head
  by (auto simp: StrDecimalLiteral_def Seq_Lit1 marks_no_space)

lemma non_decimal_no_space:
  "NonDecimalIntegerLiteral s \<Longrightarrow> s \<noteq> [] \<and> (\<forall>c \<in> set s. \<not> is_str_white_space c)"
  using hex_no_space binary_hex octal_hex
  by (auto simp: NonDecimalIntegerLiteral_def Binary_iff Octal_iff Hex_iff list_all_iff
      marks_no_space)

lemma literal_no_space:
  "StrNumericLiteral s \<Longrightarrow> s \<noteq> [] \<and> (\<forall>c \<in> set s. \<not> is_str_white_space c)"
  using decimal_no_space non_decimal_no_space by (auto simp: StrNumericLiteral_def)

lemma trim_literal:
  assumes "list_all is_str_white_space a" and "list_all is_str_white_space b"
    and "l \<noteq> []" and "\<forall>c \<in> set l. \<not> is_str_white_space c"
  shows "trim (a @ l @ b) = l"
proof -
  from assms(3,4) obtain c r where l: "l = c # r" "\<not> is_str_white_space c"
    by (cases l) auto
  from assms(3) obtain x xs where rl: "rev l = x # xs"
    by (cases "rev l") auto
  then have "x \<in> set l"
    by (metis list.set_intros(1) set_rev)
  then have x: "\<not> is_str_white_space x"
    using assms(4) by blast
  have "dropWhile is_str_white_space (a @ l @ b) = l @ b"
    using assms(1) l by (simp add: list_all_iff dropWhile_append2)
  moreover have "dropWhile is_str_white_space (rev b @ rev l) = rev l"
    unfolding rl using assms(2) x by (simp add: list_all_iff dropWhile_append)
  ultimately show ?thesis
    by (simp add: trim_def)
qed

lemma trim_spaces:
  assumes "list_all is_str_white_space s"
  shows "trim s = []"
proof -
  from assms have spaces: "dropWhile is_str_white_space s = []"
    by (simp add: dropWhile_eq_Nil_conv list_all_iff)
  show ?thesis
    unfolding trim_def spaces by simp
qed

lemma trim_decompose:
  "\<exists>a b. s = a @ trim s @ b \<and> list_all is_str_white_space a \<and> list_all is_str_white_space b"
proof -
  define a where "a = takeWhile is_str_white_space s"
  define u where "u = dropWhile is_str_white_space s"
  define b where "b = rev (takeWhile is_str_white_space (rev u))"
  have "rev u = takeWhile is_str_white_space (rev u) @ dropWhile is_str_white_space (rev u)"
    by simp
  then have "u = trim s @ b"
    unfolding trim_def b_def u_def by (metis rev_append rev_rev_ident)
  moreover have "s = a @ u"
    by (simp add: a_def u_def)
  moreover have "list_all is_str_white_space a" "list_all is_str_white_space b"
    by (auto simp: a_def b_def list_all_iff dest: set_takeWhileD)
  ultimately show ?thesis by blast
qed

lemma parsed_literal:
  "(non_decimal_integer_literal t \<noteq> None \<or> str_decimal_literal t \<noteq> NaN) = StrNumericLiteral t"
  by (simp only: non_decimal_iff decimal_iff StrNumericLiteral_def) blast

lemma string_to_number_trim:
  "(string_to_number s \<noteq> NaN) = (trim s = [] \<or> StrNumericLiteral (trim s))"
  unfolding parsed_literal [symmetric]
  by (auto simp: string_to_number_def Let_def split: option.splits)

lemma string_to_number_iff: "(string_to_number s \<noteq> NaN) = StringNumericLiteral s"
proof
  assume "string_to_number s \<noteq> NaN"
  then have "Opt StrNumericLiteral (trim s)"
    by (simp add: string_to_number_trim Opt_def)
  moreover obtain a b where "s = a @ trim s @ b" "StrWhiteSpace a" "StrWhiteSpace b"
    using trim_decompose [of s] by (auto simp: StrWhiteSpace_iff)
  ultimately show "StringNumericLiteral s"
    unfolding StringNumericLiteral_def by (metis SeqI)
next
  assume "StringNumericLiteral s"
  then obtain a m where 1: "s = a @ m" "StrWhiteSpace a"
    "Seq (Opt StrNumericLiteral) StrWhiteSpace m"
    unfolding StringNumericLiteral_def by (rule SeqE)
  from 1(3) obtain l b where 2: "m = l @ b" "Opt StrNumericLiteral l" "StrWhiteSpace b"
    by (rule SeqE)
  show "string_to_number s \<noteq> NaN"
  proof (cases "l = []")
    case True
    then have "trim s = []"
      using 1 2 by (simp add: trim_spaces StrWhiteSpace_iff)
    then show ?thesis by (simp add: string_to_number_trim)
  next
    case False
    then have lit: "StrNumericLiteral l"
      using 2(2) by (simp add: Opt_def)
    then have "trim s = l"
      using trim_literal [of a b l] literal_no_space [of l] 1 2
      by (simp add: StrWhiteSpace_iff)
    then show ?thesis using lit by (simp add: string_to_number_trim)
  qed
qed

text \<open>The conversion gives a number exactly on the values that parse as valid numbers.\<close>

lemma to_number_iff: "(to_number v \<noteq> NaN) = parses_as_valid_number v"
  by (cases v) (simp_all add: to_number_def parses_as_valid_number_def string_to_number_iff)

subsection \<open>The pieces of a split\<close>

lemma js_split_nonempty: "js_split s sep \<noteq> []"
  by (induction s) (auto split: list.splits)

lemma js_split_hd: "hd (js_split s sep) = takeWhile (\<lambda>c. c \<noteq> sep) s"
  by (induction s) (auto split: list.splits simp: js_split_nonempty)

lemma js_split_tl:
  "tl (js_split s sep) =
     (if sep \<in> set s then js_split (tl (dropWhile (\<lambda>c. c \<noteq> sep) s)) sep else [])"
  by (induction s) (auto split: list.splits simp: js_split_nonempty)

lemma at_index_first: "xs \<noteq> [] \<Longrightarrow> at_index xs 0 = Some (hd xs)"
  by (cases xs) (simp_all add: at_index_def)

lemma at_index_second:
  "xs \<noteq> [] \<Longrightarrow> at_index xs (Suc 0) = (if tl xs = [] then None else Some (hd (tl xs)))"
  by (cases xs; cases "tl xs") (auto simp: at_index_def)

lemma at_index_0: "at_index (js_split e 0x2D) 0 = expirationYearText e"
  by (simp add: at_index_first js_split_nonempty js_split_hd expirationYearText_def)

lemma at_index_1:
  "at_index (js_split e 0x2D) 1 = expirationMonthText e"
  "at_index (js_split e 0x2D) (Suc 0) = expirationMonthText e"
  by (simp_all add: at_index_second js_split_nonempty js_split_tl js_split_hd expirationMonthText_def)

subsection \<open>The example tokenize result\<close>

lemma to_number_4242: "to_number (Some (js ''4242'')) = Finite 4242"
  by (simp add: number_defs)

lemma to_number_411111: "to_number (Some (js ''411111'')) = Finite 411111"
  by (simp add: number_defs)

lemma to_number_09: "to_number (Some (js ''09'')) = Finite 9"
  by (simp add: number_defs)

lemma to_number_2025: "to_number (Some (js ''2025'')) = Finite 2025"
  by (simp add: number_defs)

lemma split_2025_09: "js_split (js ''2025-09'') 0x2D = [js ''2025'', js ''09'']"
  by (simp add: js_def)

lemma tokenizeResult1_passes: "validateTokenizeResult tokenizeResult1 = Inr ()"
  by (simp add: validateTokenizeResult_def tokenizeResult1_def isNaN_def
      to_number_4242 to_number_411111 split_2025_09 to_number_09 to_number_2025 at_index_def)
    (simp add: js_def)

lemma tokenizeResult1_payload:
  "embeddedPaymentPayload mid tokenizeResult1 =
     \<lparr>payload_methodId = mid,
      payload_paymentData = FormattedPayload
        \<lparr>credit_card_token =
           \<lparr>card_token = js ''tok_1'', last_four_digits = Finite 4242, iin = Finite 411111,
            expiration_month = Finite 9, expiration_year = Finite 2025\<rparr>,
         provider_data = \<lparr>create_account = False, embedded_checkout = True\<rparr>\<rparr>\<rparr>"
  by (simp add: embeddedPaymentPayload_def tokenizeResult1_def
      to_number_4242 to_number_411111 split_2025_09 to_number_09 to_number_2025 at_index_def)

lemma submitPayment_strategy: "fst (snd (submitPayment env p (s, w))) = s"
  by (simp add: submitPayment_def split: prod.splits option.splits)

lemma submitPayment_effects:
  "effects (snd (snd (submitPayment env p (s, w)))) = effects w @ [Dispatch (SubmitPayment p)]"
  by (simp add: submitPayment_def dispatch_action_def split: prod.splits option.splits)

lemma executeWithBoltClient_strategy:
  "fst (snd (executeWithBoltClient env payload options (s, w))) = s"
  by (simp add: executeWithBoltClient_def Let_def submitPayment_strategy
      split: prod.splits option.splits sum.splits checkout_outcome.splits)

lemma executeWithBoltEmbedded_strategy:
  "fst (snd (executeWithBoltEmbedded env payload options (s, w))) = s"
  by (simp add: executeWithBoltEmbedded_def Let_def submitPayment_strategy
      split: prod.splits option.splits sum.splits tokenize_value.splits)

lemma executeWithBoltFullCheckout_strategy:
  "fst (snd (executeWithBoltFullCheckout env payload options (s, w))) = s"
  by (simp add: executeWithBoltFullCheckout_def Let_def submitPayment_strategy
      split: prod.splits option.splits sum.splits)

text \<open>No path of \<open>execute\<close> writes a private field of the strategy.\<close>

lemma execute_strategy: "fst (snd (execute env payload options (s, w))) = s"
  by (simp add: execute_def executeWithBoltClient_strategy executeWithBoltEmbedded_strategy
      executeWithBoltFullCheckout_strategy)

text \<open>A successful \<open>initialize\<close> has loaded the full-checkout client, whatever the mode.\<close>

lemma initialize_loads_client:
  "initialize env options (s, w) = (Inr st, s', w') \<Longrightarrow> boltClient s' \<noteq> None"
  by (auto simp: initialize_defs split: if_splits sum.splits option.splits prod.splits)

text \<open>With \<open>useBigCommerceCheckout\<close> set, a successful \<open>initialize\<close> assigns both flags.\<close>

lemma initialize_checkout_flags:
  "initialize env options (s, w) = (Inr st, s', w') \<Longrightarrow> bigCommerceCheckoutRequested options
   \<Longrightarrow> useBoltClient s' = (\<not> oneClickEnabled env (store w) options)
       \<and> truthy (useBoltEmbedded s') = oneClickEnabled env (store w) options"
  by (auto simp: initialize_defs bigCommerceCheckoutRequested_def oneClickEnabled_def
      split: if_splits sum.splits option.splits prod.splits)

text \<open>Without it, a successful \<open>initialize\<close> writes no flag.\<close>

lemma initialize_plain_flags:
  "initialize env options (s, w) = (Inr st, s', w') \<Longrightarrow> \<not> bigCommerceCheckoutRequested options
   \<Longrightarrow> useBoltClient s' = useBoltClient s \<and> useBoltEmbedded s' = useBoltEmbedded s"
  by (auto simp: initialize_defs bigCommerceCheckoutRequested_def
      split: if_splits sum.splits option.splits prod.splits)

subsection \<open>Concrete runs of \<open>initialize\<close>\<close>

lemmas shop_defs =
  clientOnlyShop_def embeddedShop_def unsetShop_def clientOnlyStrategy_def
  embeddedStrategy_def fullCheckoutStrategy_def fieldlessStrategy_def clientLoadedWorld_def
  fieldMountedWorld_def plainClientLoadedWorld_def reloadedWorld_def

lemma initialize_clientOnly_run:
  "initialize clientOnlyShop (initializeOptions True None) (new_strategy, emptyWorld)
   = (Inr [], clientOnlyStrategy, clientLoadedWorld)"
  by (simp add: initialize_defs shop_defs example_defs js_def)

lemma initialize_embedded_run:
  "initialize embeddedShop (initializeOptions True (Some (js ''container'')))
     (new_strategy, emptyWorld)
   = (Inr [], embeddedStrategy, fieldMountedWorld)"
  by (simp add: initialize_defs shop_defs example_defs js_def)

lemma initialize_fullCheckout_run:
  "initialize embeddedShop (initializeOptions False None) (new_strategy, emptyWorld)
   = (Inr [], fullCheckoutStrategy, plainClientLoadedWorld)"
  by (simp add: initialize_defs shop_defs example_defs js_def)

lemma initialize_unset_run:
  "initialize unsetShop (initializeOptions True None) (new_strategy, emptyWorld)
   = (Inr [], clientOnlyStrategy\<lparr>useBoltEmbedded := None\<rparr>, clientLoadedWorld)"
  by (simp add: initialize_defs shop_defs example_defs js_def)

lemma initialize_fieldless_run:
  "initialize embeddedShop (initializeOptions True None) (new_strategy, emptyWorld)
   = (Inl (InvalidArgumentError containerId_not_provided), fieldlessStrategy, clientLoadedWorld)"
  by (simp add: initialize_defs shop_defs example_defs js_def)

lemma reinitialize_after_clientOnly_run:
  "initialize clientOnlyShop (initializeOptions False None)
     (snd (deinitialize (clientOnlyStrategy, clientLoadedWorld)))
   = (Inr [], clientOnlyStrategy, reloadedWorld)"
  by (simp add: initialize_defs deinitialize_def shop_defs example_defs js_def)

subsection \<open>Mode selection\<close>

text \<open>
  On a strategy whose flags are both false, as the constructor leaves them, a successful
  \<open>initialize\<close> selects the flags as a function of the two configuration flags.
\<close>

lemma initialize_selects_flags:
  assumes "initialize env options (s, w) = (Inr st, s', w')"
    and "modeFlags s = (False, False)"
  shows "modeFlags s' = selectedFlags (bigCommerceCheckoutRequested options)
                          (oneClickEnabled env (store w) options)"
proof (cases "bigCommerceCheckoutRequested options")
  case True
  with initialize_checkout_flags [OF assms(1)] show ?thesis
    by (simp add: modeFlags_def selectedFlags_def)
next
  case False
  with initialize_plain_flags [OF assms(1)] assms(2) show ?thesis
    by (simp add: modeFlags_def selectedFlags_def)
qed

text \<open>
  The two flags are never both true: not on a new strategy, and no operation, whether it
  succeeds or fails, makes them so.
\<close>

lemma new_strategy_flags: "modeFlags new_strategy = (False, False)"
  by (simp add: modeFlags_def new_strategy_def truthy_def)

lemma initialize_at_most_one_flag:
  "modeFlags s \<noteq> (True, True)
   \<Longrightarrow> modeFlags (fst (snd (initialize env options (s, w)))) \<noteq> (True, True)"
  by (auto simp: initialize_defs modeFlags_def split: if_splits sum.splits option.splits prod.splits)

lemma deinitialize_flags: "modeFlags (fst (snd (deinitialize (s, w)))) = modeFlags s"
  by (simp add: deinitialize_def modeFlags_def)

lemma finalize_flags: "modeFlags (fst (snd (finalize (s, w)))) = modeFlags s"
  by (simp add: finalize_def)

lemma execute_flags: "modeFlags (fst (snd (execute env payload options (s, w)))) = modeFlags s"
  by (simp add: execute_strategy)

text \<open>
  C1 does not hold of the code. The shop has one-click checkout switched off. A new strategy
  is initialized with \<open>useBigCommerceCheckout\<close> true, which sets \<open>_useBoltClient\<close>; it is
  deinitialized; it is initialized again with \<open>useBigCommerceCheckout\<close> false. The second
  \<open>initialize\<close> succeeds and \<open>_useBoltClient\<close> is still true, where the selection for these
  options is neither flag, as it is on a new strategy. \<open>execute\<close> then takes the
  BoltClientOnly path: it opens the hosted checkout and never asks the client for a
  transaction reference, the step of the FullCheckout path. The branch of \<open>initialize\<close> for
  \<open>useBigCommerceCheckout\<close> assigns both flags on every call (\<open>initialize_checkout_flags\<close>);
  the other branch and \<open>deinitialize\<close> assign neither (\<open>initialize_plain_flags\<close>,
  \<open>deinitialize_flags\<close>).
\<close>

theorem initialize_keeps_earlier_flags:
  "initialize clientOnlyShop (initializeOptions True None) (new_strategy, emptyWorld)
     = (Inr [], clientOnlyStrategy, clientLoadedWorld)
   \<and> initialize clientOnlyShop (initializeOptions False None)
       (snd (deinitialize (clientOnlyStrategy, clientLoadedWorld)))
     = (Inr [], clientOnlyStrategy, reloadedWorld)
   \<and> modeFlags clientOnlyStrategy = (True, False)
   \<and> selectedFlags (bigCommerceCheckoutRequested (initializeOptions False None))
         (oneClickEnabled clientOnlyShop (store clientLoadedWorld) (initializeOptions False None))
     = (False, False)
   \<and> modeFlags (fst (snd (initialize clientOnlyShop (initializeOptions False None)
                   (new_strategy, emptyWorld)))) = (False, False)
   \<and> effects (snd (snd (execute clientOnlyShop payloadWithPayment None
                           (clientOnlyStrategy, reloadedWorld))))
     = effects reloadedWorld @
       [Dispatch (SubmitOrder payloadWithoutPayment None),
        Dispatch (LoadPaymentMethod (js ''bolt'') None),
        OpenCheckout (BoltCheckout 1) (js ''order_1''),
        SuccessCallback,
        Dispatch (SubmitPayment
          \<lparr>payload_methodId = js ''bolt'',
           payload_paymentData = NonceData (js ''ref_1'') (Some False)\<rparr>)]"
proof -
  have selection: "selectedFlags (bigCommerceCheckoutRequested (initializeOptions False None))
      (oneClickEnabled clientOnlyShop (store clientLoadedWorld) (initializeOptions False None))
    = (False, False)"
    by (simp add: selectedFlags_def bigCommerceCheckoutRequested_def initializeOptions_def)
  have flags: "modeFlags clientOnlyStrategy = (True, False)"
    by (simp add: modeFlags_def clientOnlyStrategy_def truthy_def)
  have fresh: "modeFlags (fst (snd (initialize clientOnlyShop (initializeOptions False None)
      (new_strategy, emptyWorld)))) = (False, False)"
    by (simp add: initialize_defs shop_defs example_defs modeFlags_def)
  have run: "effects (snd (snd (execute clientOnlyShop payloadWithPayment None
                           (clientOnlyStrategy, reloadedWorld))))
     = effects reloadedWorld @
       [Dispatch (SubmitOrder payloadWithoutPayment None),
        Dispatch (LoadPaymentMethod (js ''bolt'') None),
        OpenCheckout (BoltCheckout 1) (js ''order_1''),
        SuccessCallback,
        Dispatch (SubmitPayment
          \<lparr>payload_methodId = js ''bolt'',
           payload_paymentData = NonceData (js ''ref_1'') (Some False)\<rparr>)]"
    by (simp add: execute_def executeWithBoltClient_def getBoltClient_def dispatch_action_def
        submitPayment_def call_def not_string_def Let_def shop_defs example_defs
        reloadedWorld_def js_def)
  show ?thesis
    by (simp only: initialize_clientOnly_run reinitialize_after_clientOnly_run selection flags
        fresh run simp_thms)
qed

subsection \<open>Validation of the tokenize result\<close>

text \<open>
  C2. \<open>_validateTokenizeResult\<close> raises the argument-invalid error without a field list
  exactly when the result is not valid, and raises nothing exactly when it is valid. A
  result is valid when its token is non-empty and its last four digits, its bank identifier
  number, its expiration month (piece 1 of the expiration split on \<open>-\<close>) and its expiration
  year (piece 0) are numeric strings of the language; validity is \<open>tokenize_result_valid\<close>,
  which uses neither \<open>to_number\<close> nor \<open>js_split\<close>.
\<close>

theorem validateTokenizeResult_iff_valid:
  "(validateTokenizeResult r = Inl (PaymentArgumentInvalidError None)) = (\<not> tokenize_result_valid r)
   \<and> (validateTokenizeResult r = Inr ()) = tokenize_result_valid r"
proof -
  have numbers:
    "isNaN (to_number (Some (last4 r))) = (\<not> parses_as_valid_number (Some (last4 r)))"
    "isNaN (to_number (Some (bin r))) = (\<not> parses_as_valid_number (Some (bin r)))"
    "isNaN (to_number (at_index (js_split (expiration r) 0x2D) 1))
       = (\<not> parses_as_valid_number (expirationMonthText (expiration r)))"
    "isNaN (to_number (at_index (js_split (expiration r) 0x2D) 0))
       = (\<not> parses_as_valid_number (expirationYearText (expiration r)))"
    by (simp_all only: isNaN_iff to_number_iff [symmetric] at_index_0 at_index_1 not_not)
  show ?thesis
    unfolding validateTokenizeResult_def tokenize_result_valid_def Let_def numbers
    by auto
qed

text \<open>
  Witness for C2: the result with token \<open>tok_1\<close> is valid and passes. The same result is
  not valid, and is rejected, with an empty token, with the last four digits \<open>abc\<close>, and
  with the expiration \<open>2025\<close>, which has no month. Validity is evaluated from the grammar.
\<close>

theorem validateTokenizeResult_iff_valid_witness:
  "tokenize_result_valid tokenizeResult1
   \<and> validateTokenizeResult tokenizeResult1 = Inr ()
   \<and> \<not> tokenize_result_valid (tokenizeResult1\<lparr>token := js ''''\<rparr>)
   \<and> validateTokenizeResult (tokenizeResult1\<lparr>token := js ''''\<rparr>)
       = Inl (PaymentArgumentInvalidError None)
   \<and> \<not> tokenize_result_valid (tokenizeResult1\<lparr>last4 := js ''abc''\<rparr>)
   \<and> validateTokenizeResult (tokenizeResult1\<lparr>last4 := js ''abc''\<rparr>)
       = Inl (PaymentArgumentInvalidError None)
   \<and> \<not> tokenize_result_valid (tokenizeResult1\<lparr>expiration := js ''2025''\<rparr>)
   \<and> validateTokenizeResult (tokenizeResult1\<lparr>expiration := js ''2025''\<rparr>)
       = Inl (PaymentArgumentInvalidError None)"
proof -
  have valid: "tokenize_result_valid tokenizeResult1"
    by code_simp
  have token: "\<not> tokenize_result_valid (tokenizeResult1\<lparr>token := js ''''\<rparr>)"
    by code_simp
  have digits: "\<not> tokenize_result_valid (tokenizeResult1\<lparr>last4 := js ''abc''\<rparr>)"
    by code_simp
  have month: "\<not> tokenize_result_valid (tokenizeResult1\<lparr>expiration := js ''2025''\<rparr>)"
    by code_simp
  show ?thesis
    using valid token digits month
      validateTokenizeResult_iff_valid [of tokenizeResult1]
      validateTokenizeResult_iff_valid [of "tokenizeResult1\<lparr>token := js ''''\<rparr>"]
      validateTokenizeResult_iff_valid [of "tokenizeResult1\<lparr>last4 := js ''abc''\<rparr>"]
      validateTokenizeResult_iff_valid [of "tokenizeResult1\<lparr>expiration := js ''2025''\<rparr>"]
    by simp
qed

subsection \<open>Requests without a payment\<close>

text \<open>
  C3. In each of the three modes, that is, on the strategy state that any successful
  \<open>initialize\<close> leaves, \<open>execute\<close> of a payload without \<open>payment\<close> fails with the
  argument-invalid error naming the field \<open>payment\<close>; the store and the call log are as
  before, so no order and no payment has been submitted.
\<close>

theorem execute_without_payment:
  assumes "initialize env0 options0 (s0, w0) = (Inr st, s, w1)"
    and "payment payload = None"
  shows "execute env payload options (s, w)
         = (Inl (PaymentArgumentInvalidError (Some [js ''payment''])), s, w)"
proof -
  from initialize_loads_client [OF assms(1)] obtain client where "boltClient s = Some client"
    by auto
  with assms(2) show ?thesis
    by (simp add: execute_def executeWithBoltClient_def executeWithBoltEmbedded_def
        executeWithBoltFullCheckout_def getBoltClient_def)
qed

text \<open>Witness for C3: one strategy initialized in each mode.\<close>

theorem execute_without_payment_witness:
  "modeFlags clientOnlyStrategy = (True, False)
   \<and> execute clientOnlyShop payloadWithoutPayment None (clientOnlyStrategy, clientLoadedWorld)
     = (Inl (PaymentArgumentInvalidError (Some [js ''payment''])),
        clientOnlyStrategy, clientLoadedWorld)
   \<and> modeFlags embeddedStrategy = (False, True)
   \<and> execute embeddedShop payloadWithoutPayment None (embeddedStrategy, fieldMountedWorld)
     = (Inl (PaymentArgumentInvalidError (Some [js ''payment''])),
        embeddedStrategy, fieldMountedWorld)
   \<and> modeFlags fullCheckoutStrategy = (False, False)
   \<and> execute embeddedShop payloadWithoutPayment None (fullCheckoutStrategy, plainClientLoadedWorld)
     = (Inl (PaymentArgumentInvalidError (Some [js ''payment''])),
        fullCheckoutStrategy, plainClientLoadedWorld)"
  using execute_without_payment [OF initialize_clientOnly_run, of payloadWithoutPayment clientOnlyShop None clientLoadedWorld]
    execute_without_payment [OF initialize_embedded_run, of payloadWithoutPayment embeddedShop None fieldMountedWorld]
    execute_without_payment [OF initialize_fullCheckout_run, of payloadWithoutPayment embeddedShop None plainClientLoadedWorld]
  by (simp add: payloadWithoutPayment_def modeFlags_def shop_defs truthy_def)

subsection \<open>The payload of the embedded mode\<close>

text \<open>
  C4. In embedded mode, when the mounted field tokenizes to the result with token \<open>tok_1\<close>,
  last four digits \<open>4242\<close>, bank identifier number \<open>411111\<close> and expiration \<open>2025-09\<close>, and
  the order submission succeeds, \<open>execute\<close> tokenizes, submits the order and then submits the
  payment with a payload whose card fields are 4242, 411111, month 9 and year 2025, and whose
  provider data are \<open>create_account = false\<close> and \<open>embedded_checkout = true\<close>.
\<close>

theorem execute_embedded_payload:
  assumes "\<not> useBoltClient s" and "truthy (useBoltEmbedded s)"
    and "embeddedField s = Some field"
    and "tokenize env field =
           Inr (TokenizeResult \<lparr>token = js ''tok_1'', last4 = js ''4242'', bin = js ''411111'',
                                 expiration = js ''2025-09''\<rparr>)"
    and "payment payload = Some pay"
    and "fst (dispatch env (SubmitOrder (payload\<lparr>payment := None\<rparr>) options) (store w)) = None"
  shows "effects (snd (snd (execute env payload options (s, w))))
         = effects w @
           [Tokenize field,
            Dispatch (SubmitOrder (payload\<lparr>payment := None\<rparr>) options),
            Dispatch (SubmitPayment
              \<lparr>payload_methodId = payment_methodId pay,
               payload_paymentData = FormattedPayload
                 \<lparr>credit_card_token =
                    \<lparr>card_token = js ''tok_1'', last_four_digits = Finite 4242,
                     iin = Finite 411111, expiration_month = Finite 9,
                     expiration_year = Finite 2025\<rparr>,
                  provider_data = \<lparr>create_account = False, embedded_checkout = True\<rparr>\<rparr>\<rparr>)]"
proof -
  note valid = tokenizeResult1_passes
  have result: "tokenize env field = Inr (TokenizeResult tokenizeResult1)"
    using assms(4) by (simp add: tokenizeResult1_def)
  obtain st where order:
    "dispatch env (SubmitOrder (payload\<lparr>payment := None\<rparr>) options) (store w) = (None, st)"
    using assms(6) by (cases "dispatch env (SubmitOrder (payload\<lparr>payment := None\<rparr>) options) (store w)") auto
  show ?thesis
    using assms(1,2,3,5)
    by (simp add: execute_def executeWithBoltEmbedded_def result valid Let_def call_def
        dispatch_action_def order submitPayment_effects tokenizeResult1_payload)
qed

text \<open>Witness for C4: the strategy initialized in embedded mode, in a shop whose field
  tokenizes to that result.\<close>

theorem execute_embedded_payload_witness:
  "effects (snd (snd (execute embeddedShop payloadWithPayment None
                        (embeddedStrategy, fieldMountedWorld))))
   = effects fieldMountedWorld @
     [Tokenize (BoltEmbeddedField 3),
      Dispatch (SubmitOrder payloadWithoutPayment None),
      Dispatch (SubmitPayment
        \<lparr>payload_methodId = js ''bolt'',
         payload_paymentData = FormattedPayload
           \<lparr>credit_card_token =
              \<lparr>card_token = js ''tok_1'', last_four_digits = Finite 4242,
               iin = Finite 411111, expiration_month = Finite 9,
               expiration_year = Finite 2025\<rparr>,
            provider_data = \<lparr>create_account = False, embedded_checkout = True\<rparr>\<rparr>\<rparr>)]"
  using execute_embedded_payload [of embeddedStrategy "BoltEmbeddedField 3" embeddedShop
      payloadWithPayment "\<lparr>payment_methodId = js ''bolt'',
        paymentData = Some \<lparr>shouldSaveInstrument = Some False, otherFields = js ''''\<rparr>\<rparr>"
      None fieldMountedWorld]
  by (simp add: shop_defs example_defs truthy_def tokenizeResult1_def)

subsection \<open>initialize without a method id\<close>

text \<open>
  C5. When \<open>methodId\<close> is absent, \<open>initialize\<close> fails with the invalid-argument error and
  leaves the strategy, the store and the call log as they were, whatever the other options.
\<close>

theorem initialize_without_methodId:
  assumes "methodId options = None"
  shows "initialize env options (s, w) = (Inl (InvalidArgumentError methodId_not_provided), s, w)"
  using assms by (simp add: initialize_def not_string_def)

text \<open>Witness for C5: no method id, with \<open>useBigCommerceCheckout\<close> set and a container.\<close>

theorem initialize_without_methodId_witness:
  "initialize embeddedShop
     ((initializeOptions True (Some (js ''container'')))\<lparr>methodId := None\<rparr>)
     (new_strategy, emptyWorld)
   = (Inl (InvalidArgumentError methodId_not_provided), new_strategy, emptyWorld)"
  using initialize_without_methodId
    [of "(initializeOptions True (Some (js ''container'')))\<lparr>methodId := None\<rparr>"
      embeddedShop new_strategy emptyWorld]
  by simp

subsection \<open>deinitialize and finalize\<close>

text \<open>
  C6. From every state \<open>deinitialize\<close> succeeds, returning the store state; afterwards both
  client handles are absent, the embedded field handle is what it was, and a second
  \<open>deinitialize\<close> gives the same result and the same state as the first.
\<close>

theorem deinitialize_clears_clients:
  "fst (deinitialize (s, w)) = Inr (store w)
   \<and> boltClient (fst (snd (deinitialize (s, w)))) = None
   \<and> boltEmbedded (fst (snd (deinitialize (s, w)))) = None
   \<and> embeddedField (fst (snd (deinitialize (s, w)))) = embeddedField s
   \<and> snd (snd (deinitialize (s, w))) = w
   \<and> deinitialize (snd (deinitialize (s, w))) = deinitialize (s, w)"
  by (simp add: deinitialize_def)

text \<open>
  C7. \<open>finalize\<close> fails with the order-finalization-not-required error in every state of
  the strategy and of the world, and changes neither.
\<close>

theorem finalize_not_required:
  "finalize (s, w) = (Inl OrderFinalizationNotRequiredError, s, w)"
  by (simp add: finalize_def)

subsection \<open>The shipping address fixture\<close>

text \<open>
  C8. Any two calls of \<open>getShippingAddress\<close> return equal records; the country code is
  \<open>US\<close>, the second address line is empty, and every other text field is non-empty.
\<close>

theorem getShippingAddress_fixture:
  "getShippingAddress u = getShippingAddress v
   \<and> countryCode (getShippingAddress u) = js ''US''
   \<and> addressLine2 (getShippingAddress u) = []
   \<and> address_id (getShippingAddress u) \<noteq> []
   \<and> firstName (getShippingAddress u) \<noteq> []
   \<and> lastName (getShippingAddress u) \<noteq> []
   \<and> company (getShippingAddress u) \<noteq> []
   \<and> addressLine1 (getShippingAddress u) \<noteq> []
   \<and> city (getShippingAddress u) \<noteq> []
   \<and> province (getShippingAddress u) \<noteq> []
   \<and> provinceCode (getShippingAddress u) \<noteq> []
   \<and> postCode (getShippingAddress u) \<noteq> []
   \<and> country (getShippingAddress u) \<noteq> []
   \<and> phone (getShippingAddress u) \<noteq> []
   \<and> customFields (getShippingAddress u) = []"
  by (simp add: getShippingAddress_def js_def)

subsection \<open>execute on a strategy without its handles\<close>

text \<open>
  C9. On the BoltClientOnly and FullCheckout paths, that is, when \<open>_useBoltClient\<close> is true or
  \<open>_useBoltEmbedded\<close> is not, \<open>execute\<close> on a strategy without the bolt client handle fails
  with the not-initialized error, for every payload, with or without \<open>payment\<close>, and
  changes nothing.
\<close>

theorem execute_not_initialized:
  assumes "boltClient s = None"
    and "useBoltClient s \<or> \<not> truthy (useBoltEmbedded s)"
  shows "execute env payload options (s, w)
         = (Inl (NotInitializedError PaymentNotInitialized), s, w)"
  using assms
  by (auto simp: execute_def executeWithBoltClient_def executeWithBoltFullCheckout_def
      getBoltClient_def)

text \<open>
  Witness for C9: a payload without \<open>payment\<close> on a new strategy (FullCheckout path) and on
  a strategy deinitialized after an initialization in BoltClientOnly mode.
\<close>

theorem execute_not_initialized_witness:
  "execute embeddedShop payloadWithoutPayment None (new_strategy, emptyWorld)
   = (Inl (NotInitializedError PaymentNotInitialized), new_strategy, emptyWorld)
   \<and> useBoltClient (fst (snd (deinitialize (clientOnlyStrategy, clientLoadedWorld))))
   \<and> execute clientOnlyShop payloadWithoutPayment None
       (snd (deinitialize (clientOnlyStrategy, clientLoadedWorld)))
     = (Inl (NotInitializedError PaymentNotInitialized),
        snd (deinitialize (clientOnlyStrategy, clientLoadedWorld)))"
  using execute_not_initialized [of new_strategy embeddedShop payloadWithoutPayment None emptyWorld]
    execute_not_initialized [of "fst (snd (deinitialize (clientOnlyStrategy, clientLoadedWorld)))"
      clientOnlyShop payloadWithoutPayment None
      "snd (snd (deinitialize (clientOnlyStrategy, clientLoadedWorld)))"]
  by (simp add: new_strategy_def truthy_def deinitialize_def clientOnlyStrategy_def)

text \<open>
  C10. In embedded mode with no embedded field handle, \<open>execute\<close> of a payload with
  \<open>payment\<close> fails with the payment-method-invalid error whatever the two client handles
  are; the call log and the store are unchanged, so nothing was tokenized and no order was
  submitted. A payload without \<open>payment\<close> fails with the argument-invalid error before that.
  \<open>deinitialize\<close> changes neither the flags nor the field handle, so the same holds after it.
\<close>

theorem execute_embedded_without_field:
  assumes "\<not> useBoltClient s" and "truthy (useBoltEmbedded s)" and "embeddedField s = None"
  shows "execute env payload options (s, w)
         = (if payment payload = None
            then (Inl (PaymentArgumentInvalidError (Some [js ''payment''])), s, w)
            else (Inl PaymentMethodInvalidError, s, w))
       \<and> useBoltClient (fst (snd (deinitialize (s, w)))) = useBoltClient s
       \<and> useBoltEmbedded (fst (snd (deinitialize (s, w)))) = useBoltEmbedded s
       \<and> embeddedField (fst (snd (deinitialize (s, w)))) = embeddedField s
       \<and> execute env payload options (snd (deinitialize (s, w)))
         = (if payment payload = None
            then (Inl (PaymentArgumentInvalidError (Some [js ''payment''])),
                  snd (deinitialize (s, w)))
            else (Inl PaymentMethodInvalidError, snd (deinitialize (s, w))))"
  using assms
  by (auto simp: execute_def executeWithBoltEmbedded_def deinitialize_def)

text \<open>
  Witness for C10: \<open>initialize\<close> in embedded mode without a container fails after it has
  written the flags and before it mounts a field; on the strategy it leaves, before and
  after \<open>deinitialize\<close>, \<open>execute\<close> with a payment fails with payment-method-invalid.
\<close>

theorem execute_embedded_without_field_witness:
  "initialize embeddedShop (initializeOptions True None) (new_strategy, emptyWorld)
   = (Inl (InvalidArgumentError containerId_not_provided), fieldlessStrategy, clientLoadedWorld)
   \<and> execute embeddedShop payloadWithPayment None (fieldlessStrategy, clientLoadedWorld)
     = (Inl PaymentMethodInvalidError, fieldlessStrategy, clientLoadedWorld)
   \<and> execute embeddedShop payloadWithPayment None
       (snd (deinitialize (fieldlessStrategy, clientLoadedWorld)))
     = (Inl PaymentMethodInvalidError, snd (deinitialize (fieldlessStrategy, clientLoadedWorld)))
   \<and> execute embeddedShop payloadWithoutPayment None (fieldlessStrategy, clientLoadedWorld)
     = (Inl (PaymentArgumentInvalidError (Some [js ''payment''])),
        fieldlessStrategy, clientLoadedWorld)"
  using execute_embedded_without_field [of fieldlessStrategy embeddedShop payloadWithPayment None clientLoadedWorld]
    execute_embedded_without_field [of fieldlessStrategy embeddedShop payloadWithoutPayment None clientLoadedWorld]
  by (simp add: initialize_fieldless_run fieldlessStrategy_def truthy_def payloadWithPayment_def
      payloadWithoutPayment_def)

end
